theory Spec2Isabelle
  imports Main "HOL-Library.Char_ord" "HOL-Library.List_Lexorder" "HOL-Library.Multiset"
begin

chapter \<open>The Electrum server health check\<close>

text \<open>
  A shallow embedding of \<^verbatim>\<open>dev-scripts/health_check_default_electrum_servers.py\<close>:
  the URL handling of \<^verbatim>\<open>check_server\<close>, the two transport probes
  \<^verbatim>\<open>check_tcp_server\<close> and \<^verbatim>\<open>check_ssl_server\<close>, and the
  collection loop of \<^verbatim>\<open>main\<close>.

  Conventions.
  \<^item> A Python \<^verbatim>\<open>str\<close> that is a URL, a host name or a message is a \<open>string\<close>;
    Isabelle characters are 8 bits wide, so the model covers text whose code points are
    below 256. The text of a server reply is a list of code points (\<open>ustr\<close>),
    because a reply is decoded from arbitrary bytes.
  \<^item> \<^verbatim>\<open>bytes\<close> are a \<open>string\<close> as well, one character per byte.
  \<^item> A call either returns a value, raises an exception, or never returns:
    \<open>'a py\<close> is \<open>(exn + 'a) option\<close> with \<open>None\<close> for a call that does not return
    and \<open>Inl\<close> for a raised exception.
  \<^item> What the operating system, the network and the remote peer do is a parameter
    (records \<open>net\<close> and \<open>peer\<close>). Library functions whose behaviour is not fixed by the
    script are a parameter too (record \<open>pylib\<close>); a reference instance that follows
    CPython 3.11 is defined at the end and used for the evaluated examples.
\<close>

section \<open>Exceptions\<close>

text \<open>
  The handlers of the script distinguish exceptions by class, in the order of the
  \<^verbatim>\<open>except\<close> clauses. An exception is modelled by the three class tests the
  handlers make and by its message \<^verbatim>\<open>str(e)\<close>. Only instances of
  \<^verbatim>\<open>Exception\<close> are modelled: the operations of the script raise nothing else.
\<close>

record exn =
  is_timeout :: bool
  is_refused :: bool
  is_ssl :: bool
  exn_str :: string

type_synonym 'a py = "(exn + 'a) option"

definition plain_exn :: "string \<Rightarrow> exn" where
  "plain_exn m = \<lparr>is_timeout = False, is_refused = False, is_ssl = False, exn_str = m\<rparr>"

definition ValueError :: "string \<Rightarrow> exn" where
  "ValueError m = plain_exn m"

definition TypeError :: "string \<Rightarrow> exn" where
  "TypeError m = plain_exn m"

definition RecursionError :: "string \<Rightarrow> exn" where
  "RecursionError m = plain_exn m"

section \<open>String operations of Python\<close>

definition ord :: "char \<Rightarrow> nat" where
  "ord c = of_char c"

definition digit_char :: "nat \<Rightarrow> char" where
  "digit_char d = char_of (48 + d)"

fun show_nat :: "nat \<Rightarrow> string" where
  "show_nat n = (if n < 10 then [digit_char n] else show_nat (n div 10) @ [digit_char (n mod 10)])"

declare show_nat.simps [simp del]

definition hex_char :: "nat \<Rightarrow> char" where
  "hex_char d = (if d < 10 then char_of (48 + d) else char_of (87 + d))"

definition isdigit :: "char \<Rightarrow> bool" where
  "isdigit c = (48 \<le> ord c \<and> ord c \<le> 57)"

definition isalpha_ascii :: "char \<Rightarrow> bool" where
  "isalpha_ascii c = ((65 \<le> ord c \<and> ord c \<le> 90) \<or> (97 \<le> ord c \<and> ord c \<le> 122))"

text \<open>\<^verbatim>\<open>str.lower()\<close> on code points below 256: the ASCII capitals and the
  Latin-1 capitals \<open>0xC0\<close> to \<open>0xDE\<close> without the multiplication sign \<open>0xD7\<close>.\<close>

definition lower :: "char \<Rightarrow> char" where
  "lower c = (if (65 \<le> ord c \<and> ord c \<le> 90) \<or> (192 \<le> ord c \<and> ord c \<le> 222 \<and> ord c \<noteq> 215)
              then char_of (ord c + 32) else c)"

text \<open>\<^verbatim>\<open>s.partition(sep)\<close> and \<^verbatim>\<open>s.rpartition(sep)\<close> for a separator of one
  character; the middle component says whether the separator was found.\<close>

definition str_partition :: "char \<Rightarrow> string \<Rightarrow> string \<times> bool \<times> string" where
  "str_partition sep s =
     (takeWhile (\<lambda>c. c \<noteq> sep) s, sep \<in> set s, drop 1 (dropWhile (\<lambda>c. c \<noteq> sep) s))"

definition str_rpartition :: "char \<Rightarrow> string \<Rightarrow> string \<times> bool \<times> string" where
  "str_rpartition sep s =
     (if sep \<in> set s
      then (rev (drop 1 (dropWhile (\<lambda>c. c \<noteq> sep) (rev s))), True,
            rev (takeWhile (\<lambda>c. c \<noteq> sep) (rev s)))
      else ([], False, s))"

text \<open>\<^verbatim>\<open>repr(s)\<close>, used by the message of a \<^verbatim>\<open>ValueError\<close>.\<close>

definition repr_char :: "char \<Rightarrow> char \<Rightarrow> string" where
  \<open>repr_char quote c =
     (if c = quote \<or> c = CHR 0x5C then [CHR 0x5C, c]
      else if c = CHR 0x09 then [CHR 0x5C, CHR ''t'']
      else if c = CHR 0x0A then [CHR 0x5C, CHR ''n'']
      else if c = CHR 0x0D then [CHR 0x5C, CHR ''r'']
      else if ord c < 32 \<or> (127 \<le> ord c \<and> ord c \<le> 160) \<or> ord c = 173
      then [CHR 0x5C, CHR ''x'', hex_char (ord c div 16), hex_char (ord c mod 16)]
      else [c])\<close>

definition repr :: "string \<Rightarrow> string" where
  \<open>repr s =
     (let quote = (if CHR 0x27 \<in> set s \<and> CHR 0x22 \<notin> set s then CHR 0x22 else CHR 0x27)
      in [quote] @ concat (map (repr_char quote) s) @ [quote])\<close>

definition int_of_digits :: "string \<Rightarrow> nat" where
  "int_of_digits s = foldl (\<lambda>n c. 10 * n + (ord c - 48)) 0 s"

section \<open>\<^verbatim>\<open>urllib.parse.urlparse\<close>\<close>

text \<open>
  \<^verbatim>\<open>check_server\<close> reads three things off the parse result: \<^verbatim>\<open>scheme\<close>,
  \<^verbatim>\<open>hostname\<close> and \<^verbatim>\<open>port\<close>. The model follows \<^verbatim>\<open>urlsplit\<close> of CPython 3.11
  as far as these three need it:
  \<^item> leading characters up to the space are stripped, and tab, carriage return and line
    feed are removed everywhere;
  \<^item> the text before the first colon is the scheme when it starts with an ASCII letter
    and consists of letters, digits, \<open>+\<close>, \<open>-\<close> and \<open>.\<close>; it is lower-cased;
  \<^item> after \<open>//\<close> the network location runs to the first of \<open>/\<close>, \<open>?\<close>, \<open>#\<close>;
  \<^item> a network location with one bracket only raises \<^verbatim>\<open>ValueError\<close>; one with both
    brackets is validated as an IP literal, which differs between CPython releases and is
    the parameter \<open>check_bracketed_netloc\<close>.
  The NFKC check of \<^verbatim>\<open>_checknetloc\<close> never raises on code points below 256.
\<close>

record split_result =
  scheme :: string
  netloc :: string

definition scheme_char :: "char \<Rightarrow> bool" where
  \<open>scheme_char c = (isalpha_ascii c \<or> isdigit c \<or> c \<in> set ''+-.'')\<close>

definition urlparse :: "(string \<Rightarrow> exn option) \<Rightarrow> string \<Rightarrow> exn + split_result" where
  \<open>urlparse check_bracketed url0 =
     (let url = dropWhile (\<lambda>c. ord c \<le> 32) url0;
          url = filter (\<lambda>c. c \<notin> {CHR 0x09, CHR 0x0D, CHR 0x0A}) url;
          prefix = takeWhile (\<lambda>c. c \<noteq> CHR '':'') url;
          (scheme, url) =
            (if CHR '':'' \<in> set url \<and> prefix \<noteq> [] \<and> isalpha_ascii (hd prefix)
                \<and> list_all scheme_char prefix
             then (map lower prefix, drop (length prefix + 1) url)
             else ([], url))
      in if take 2 url = ''//''
         then (let netloc = takeWhile (\<lambda>c. c \<notin> set ''/?#'') (drop 2 url)
               in if (CHR ''['' \<in> set netloc \<and> CHR '']'' \<notin> set netloc)
                     \<or> (CHR '']'' \<in> set netloc \<and> CHR ''['' \<notin> set netloc)
                  then Inl (ValueError ''Invalid IPv6 URL'')
                  else if CHR ''['' \<in> set netloc \<and> CHR '']'' \<in> set netloc
                  then (case check_bracketed netloc of
                          Some e \<Rightarrow> Inl e
                        | None \<Rightarrow> Inr \<lparr>scheme = scheme, netloc = netloc\<rparr>)
                  else Inr \<lparr>scheme = scheme, netloc = netloc\<rparr>)
         else Inr \<lparr>scheme = scheme, netloc = []\<rparr>)\<close>

text \<open>The property \<^verbatim>\<open>_hostinfo\<close>: host text and port text of the network location.\<close>

definition hostinfo :: "split_result \<Rightarrow> string \<times> string option" where
  \<open>hostinfo parsed =
     (let hostinfo = snd (snd (str_rpartition (CHR ''@'') (netloc parsed)));
          (_, have_open_br, bracketed) = str_partition (CHR ''['') hostinfo;
          (hostname, port) =
            (if have_open_br
             then (let (hostname, _, port) = str_partition (CHR '']'') bracketed;
                       (_, _, port) = str_partition (CHR '':'') port
                   in (hostname, port))
             else (let (hostname, _, port) = str_partition (CHR '':'') hostinfo
                   in (hostname, port)))
      in (hostname, if port = [] then None else Some port))\<close>

text \<open>The property \<^verbatim>\<open>hostname\<close>: \<^verbatim>\<open>None\<close> for an empty host, else the host in
  lower case, a zone identifier after \<open>%\<close> left as it is.\<close>

definition hostname_of :: "split_result \<Rightarrow> string option" where
  \<open>hostname_of parsed =
     (let hostname = fst (hostinfo parsed)
      in if hostname = [] then None
         else (let (hostname, percent, zone) = str_partition (CHR ''%'') hostname
               in Some (map lower hostname @ (if percent then ''%'' else []) @ zone)))\<close>

text \<open>The property \<^verbatim>\<open>port\<close>: \<^verbatim>\<open>None\<close> for an empty port text; a text that is not
  made of ASCII digits, or that denotes a number above 65535, raises
  \<^verbatim>\<open>ValueError\<close>, and so does a text of more than 4300 digits
  (the limit of \<^verbatim>\<open>int\<close> on decimal text).\<close>

definition port_of :: "split_result \<Rightarrow> exn + nat option" where
  \<open>port_of parsed =
     (case snd (hostinfo parsed) of
        None \<Rightarrow> Inr None
      | Some port \<Rightarrow>
          if list_all isdigit port
          then (if 4300 < length port
                then Inl (ValueError (''Exceeds the limit (4300 digits) for integer string conversion: value has ''
                        @ show_nat (length port)
                        @ '' digits; use sys.set_int_max_str_digits() to increase the limit''))
                else if int_of_digits port \<le> 65535 then Inr (Some (int_of_digits port))
                else Inl (ValueError ''Port out of range 0-65535''))
          else Inl (ValueError (''Port could not be cast to integer value as '' @ repr port)))\<close>

section \<open>Library behaviour taken as a parameter\<close>

type_synonym ustr = "nat list"

definition u :: "string \<Rightarrow> ustr" where
  "u s = map of_char s"

text \<open>The value \<^verbatim>\<open>json.loads\<close> returns. A \<^verbatim>\<open>dict\<close> is the list of its items, a
  \<^verbatim>\<open>float\<close> is kept as the text it was read from.\<close>

datatype json =
    JObject "(ustr \<times> json) list"
  | JArray "json list"
  | JString ustr
  | JInt int
  | JFloat ustr
  | JBool bool
  | JNull

text \<open>
  \<^item> \<open>check_bracketed_netloc\<close>: the validation \<^verbatim>\<open>urlsplit\<close> applies to a network
    location with brackets (\<open>None\<close>: accepted);
  \<^item> \<open>bytes_decode\<close>: \<^verbatim>\<open>response.decode()\<close>, UTF-8 with strict error handling;
  \<^item> \<open>json_loads\<close>: \<^verbatim>\<open>json.loads\<close>.
\<close>

record pylib =
  check_bracketed_netloc :: "string \<Rightarrow> exn option"
  bytes_decode :: "string \<Rightarrow> exn + ustr"
  json_loads :: "ustr \<Rightarrow> exn + json"

text \<open>\<^verbatim>\<open>str.strip()\<close> removes the white space of Unicode at both ends.\<close>

definition isspace :: "nat \<Rightarrow> bool" where
  "isspace c = ((9 \<le> c \<and> c \<le> 13) \<or> (28 \<le> c \<and> c \<le> 32) \<or> c = 0x85 \<or> c = 0xA0
      \<or> c = 0x1680 \<or> (0x2000 \<le> c \<and> c \<le> 0x200A) \<or> c = 0x2028 \<or> c = 0x2029
      \<or> c = 0x202F \<or> c = 0x205F \<or> c = 0x3000)"

definition strip :: "ustr \<Rightarrow> ustr" where
  "strip s = rev (dropWhile isspace (rev (dropWhile isspace s)))"

text \<open>
  \<^verbatim>\<open>'result' in data\<close>: key membership for a \<^verbatim>\<open>dict\<close>, element membership for a
  \<^verbatim>\<open>list\<close>, substring test for a \<^verbatim>\<open>str\<close>, and \<^verbatim>\<open>TypeError\<close> for a number,
  a Boolean and \<^verbatim>\<open>None\<close>.
\<close>

fun is_sublist :: "'a list \<Rightarrow> 'a list \<Rightarrow> bool" where
  "is_sublist xs [] = (xs = [])"
| "is_sublist xs (y # ys) = (take (length xs) (y # ys) = xs \<or> is_sublist xs ys)"

definition type_name :: "json \<Rightarrow> string" where
  "type_name v = (case v of JInt _ \<Rightarrow> ''int'' | JFloat _ \<Rightarrow> ''float'' | JBool _ \<Rightarrow> ''bool''
       | JNull \<Rightarrow> ''NoneType'' | JObject _ \<Rightarrow> ''dict'' | JArray _ \<Rightarrow> ''list'' | JString _ \<Rightarrow> ''str'')"

definition contains :: "string \<Rightarrow> json \<Rightarrow> exn + bool" where
  "contains key data =
     (case data of
        JObject items \<Rightarrow> Inr (u key \<in> fst ` set items)
      | JArray vs \<Rightarrow> Inr (JString (u key) \<in> set vs)
      | JString s \<Rightarrow> Inr (is_sublist (u key) s)
      | _ \<Rightarrow> Inl (TypeError (''argument of type '' @ [CHR 0x27] @ type_name data @ [CHR 0x27]
                      @ '' is not iterable'')))"

section \<open>The network\<close>

text \<open>
  A connected socket is the record \<open>peer\<close>: what \<^verbatim>\<open>sendall\<close> does with the bytes
  given to it (\<open>None\<close>: it returns), and what the successive calls of
  \<^verbatim>\<open>recv(4096)\<close> do, counted from 0: raise, or return a chunk, the empty chunk
  meaning that the peer has closed the connection. Every call of \<^verbatim>\<open>recv\<close> returns
  within the timeout set on the socket, but nothing bounds their number.

  The record \<open>net\<close> is what one probe meets before it is connected:
  \<^verbatim>\<open>ssl.create_default_context()\<close>, \<^verbatim>\<open>socket.socket(...)\<close>,
  \<^verbatim>\<open>context.wrap_socket(sock, server_hostname=host)\<close> and
  \<^verbatim>\<open>connect((host, port))\<close>, which for the wrapped socket includes the TLS
  handshake. \<^verbatim>\<open>settimeout\<close> with the constant 2, the two assignments to the
  context, \<^verbatim>\<open>request.encode()\<close> and the closing of the sockets on leaving the
  \<^verbatim>\<open>with\<close> blocks are taken not to raise.
\<close>

record peer =
  on_sendall :: "string \<Rightarrow> exn option"
  on_recv :: "nat \<Rightarrow> exn + string"

record net =
  on_create_default_context :: "exn option"
  on_socket :: "exn option"
  on_wrap_socket :: "string \<Rightarrow> exn option"
  on_connect :: "string \<Rightarrow> nat \<Rightarrow> exn + peer"

section \<open>The transport probes\<close>

text \<open>
  \<^verbatim>\<open>request = json.dumps({"id": 1, "method": "blockchain.headers.subscribe", "params": []}) + "\n"\<close>
\<close>

definition request :: string where
  \<open>request = ''{"id": 1, "method": "blockchain.headers.subscribe", "params": []}'' @ [CHR 0x0A]\<close>

text \<open>
  The read loop, the same text in both probes (lines 59 to 66 and 99 to 106):
  \<^verbatim>\<open>
  response = b""
  while True:
      chunk = sock.recv(4096)
      if not chunk:
          break
      response += chunk
      if b"\n" in response:
          break
  \<close>
  \<open>recv_loop recv k response\<close> is the loop about to make call number \<open>k\<close> of
  \<^verbatim>\<open>recv\<close> with \<open>response\<close> accumulated so far. The loop has no bound of its own, so
  it is a partial function: \<open>None\<close> is a loop that never ends.
\<close>

partial_function (option) recv_loop :: "(nat \<Rightarrow> exn + string) \<Rightarrow> nat \<Rightarrow> string \<Rightarrow> (exn + string) option" where
  "recv_loop recv k response =
     (case recv k of
        Inl e \<Rightarrow> Some (Inl e)
      | Inr chunk \<Rightarrow>
          if chunk = [] then Some (Inr response)
          else if CHR 0x0A \<in> set (response @ chunk) then Some (Inr (response @ chunk))
          else recv_loop recv (Suc k) (response @ chunk))"

text \<open>
  What follows the loop, again the same in both probes (lines 68 to 74 and 108 to 114):
  \<^verbatim>\<open>
  response_str = response.decode().strip()
  if response_str:
      data = json.loads(response_str)
      if 'result' in data or 'error' in data:
          return True, "OK"
  return False, "No valid response"
  \<close>
\<close>

definition read_response :: "pylib \<Rightarrow> string \<Rightarrow> exn + bool \<times> string" where
  "read_response L response =
     (case bytes_decode L response of
        Inl e \<Rightarrow> Inl e
      | Inr text \<Rightarrow>
          (let response_str = strip text
           in if response_str \<noteq> []
              then (case json_loads L response_str of
                      Inl e \<Rightarrow> Inl e
                    | Inr data \<Rightarrow>
                        (case contains ''result'' data of
                           Inl e \<Rightarrow> Inl e
                         | Inr True \<Rightarrow> Inr (True, ''OK'')
                         | Inr False \<Rightarrow>
                             (case contains ''error'' data of
                                Inl e \<Rightarrow> Inl e
                              | Inr True \<Rightarrow> Inr (True, ''OK'')
                              | Inr False \<Rightarrow> Inr (False, ''No valid response''))))
              else Inr (False, ''No valid response'')))"

text \<open>From \<^verbatim>\<open>sendall\<close> to the \<^verbatim>\<open>return\<close>, on a connected socket.\<close>

definition exchange :: "pylib \<Rightarrow> peer \<Rightarrow> (exn + bool \<times> string) option" where
  "exchange L sock =
     (case on_sendall sock request of
        Some e \<Rightarrow> Some (Inl e)
      | None \<Rightarrow>
          (case recv_loop (on_recv sock) 0 [] of
             None \<Rightarrow> None
           | Some (Inl e) \<Rightarrow> Some (Inl e)
           | Some (Inr response) \<Rightarrow> Some (read_response L response)))"

text \<open>The body of the \<^verbatim>\<open>try\<close> of \<^verbatim>\<open>check_tcp_server\<close> (lines 54 to 74) and its
  \<^verbatim>\<open>except\<close> clauses (lines 75 to 80), tried in the order written.\<close>

definition tcp_try :: "pylib \<Rightarrow> net \<Rightarrow> string \<Rightarrow> nat \<Rightarrow> (exn + bool \<times> string) option" where
  "tcp_try L n host port =
     (case on_socket n of
        Some e \<Rightarrow> Some (Inl e)
      | None \<Rightarrow>
          (case on_connect n host port of
             Inl e \<Rightarrow> Some (Inl e)
           | Inr sock \<Rightarrow> exchange L sock))"

definition tcp_except :: "exn \<Rightarrow> bool \<times> string" where
  "tcp_except e =
     (if is_timeout e then (False, ''Timeout'')
      else if is_refused e then (False, ''Connection refused'')
      else (False, exn_str e))"

definition check_tcp_server :: "pylib \<Rightarrow> net \<Rightarrow> string \<Rightarrow> nat \<Rightarrow> (bool \<times> string) option" where
  "check_tcp_server L n host port =
     (case tcp_try L n host port of
        None \<Rightarrow> None
      | Some (Inr result) \<Rightarrow> Some result
      | Some (Inl e) \<Rightarrow> Some (tcp_except e))"

text \<open>The same for \<^verbatim>\<open>check_ssl_server\<close> (lines 88 to 114 and 115 to 122).\<close>

definition ssl_try :: "pylib \<Rightarrow> net \<Rightarrow> string \<Rightarrow> nat \<Rightarrow> (exn + bool \<times> string) option" where
  "ssl_try L n host port =
     (case on_create_default_context n of
        Some e \<Rightarrow> Some (Inl e)
      | None \<Rightarrow>
          (case on_socket n of
             Some e \<Rightarrow> Some (Inl e)
           | None \<Rightarrow>
               (case on_wrap_socket n host of
                  Some e \<Rightarrow> Some (Inl e)
                | None \<Rightarrow>
                    (case on_connect n host port of
                       Inl e \<Rightarrow> Some (Inl e)
                     | Inr ssock \<Rightarrow> exchange L ssock))))"

definition ssl_except :: "exn \<Rightarrow> bool \<times> string" where
  "ssl_except e =
     (if is_timeout e then (False, ''Timeout'')
      else if is_refused e then (False, ''Connection refused'')
      else if is_ssl e then (False, ''SSL error: '' @ exn_str e)
      else (False, exn_str e))"

definition check_ssl_server :: "pylib \<Rightarrow> net \<Rightarrow> string \<Rightarrow> nat \<Rightarrow> (bool \<times> string) option" where
  "check_ssl_server L n host port =
     (case ssl_try L n host port of
        None \<Rightarrow> None
      | Some (Inr result) \<Rightarrow> Some result
      | Some (Inl e) \<Rightarrow> Some (ssl_except e))"

section \<open>\<^verbatim>\<open>check_server\<close>\<close>

text \<open>
  \<^verbatim>\<open>
  parsed = urlparse(url)
  protocol = parsed.scheme
  host = parsed.hostname
  port = parsed.port
  if not host or not port:
      return url, False, "Invalid URL format"
  if protocol == "tcp":
      success, message = check_tcp_server(host, port)
  elif protocol == "ssl":
      success, message = check_ssl_server(host, port)
  else:
      return url, False, f"Unknown protocol: {protocol}"
  return url, success, message
  \<close>
  There is no \<^verbatim>\<open>try\<close> in this function: a \<^verbatim>\<open>ValueError\<close> of \<^verbatim>\<open>urlparse\<close> or of
  the property \<^verbatim>\<open>port\<close> leaves it. \<^verbatim>\<open>not port\<close> holds for \<^verbatim>\<open>None\<close> and for 0.
  The parameter \<open>n\<close> is the network the probe of this call meets.
\<close>

definition check_server :: "pylib \<Rightarrow> net \<Rightarrow> string \<Rightarrow> (string \<times> bool \<times> string) py" where
  "check_server L n url =
     (case urlparse (check_bracketed_netloc L) url of
        Inl e \<Rightarrow> Some (Inl e)
      | Inr parsed \<Rightarrow>
          (let protocol = scheme parsed; host = hostname_of parsed
           in case port_of parsed of
                Inl e \<Rightarrow> Some (Inl e)
              | Inr port \<Rightarrow>
                  if host = None \<or> host = Some [] \<or> port = None \<or> port = Some 0
                  then Some (Inr (url, False, ''Invalid URL format''))
                  else if protocol = ''tcp''
                  then map_option (\<lambda>(success, message). Inr (url, success, message))
                         (check_tcp_server L n (the host) (the port))
                  else if protocol = ''ssl''
                  then map_option (\<lambda>(success, message). Inr (url, success, message))
                         (check_ssl_server L n (the host) (the port))
                  else Some (Inr (url, False, ''Unknown protocol: '' @ protocol))))"

section \<open>\<^verbatim>\<open>main\<close>\<close>

text \<open>
  \<^verbatim>\<open>all_servers = list(set(rust_servers + ts_servers)); all_servers.sort()\<close>
  The list made from the set has no repeated element, in an order Python does not fix;
  sorting it gives the same list whatever that order was (lemma
  \<open>sort_any_enumeration\<close>), so the model enumerates the set with \<open>remdups\<close>. Python
  compares strings code point by code point: the lexicographic order of
  \<open>HOL-Library.List_Lexorder\<close> over the character order of \<open>HOL-Library.Char_ord\<close>.
\<close>

definition all_servers :: "string list \<Rightarrow> string list \<Rightarrow> string list" where
  "all_servers rust_servers ts_servers = sort (remdups (rust_servers @ ts_servers))"

text \<open>
  The loop over the completed futures (lines 173 to 188), given the futures in the order
  of their completion:
  \<^verbatim>\<open>
  for future in as_completed(futures):
      url, success, message = future.result()
      if success: working.append(url)
      else: broken.append((url, message))
  \<close>
  \<^verbatim>\<open>future.result()\<close> raises what the call of \<^verbatim>\<open>check_server\<close> raised. The
  parameter \<open>world\<close> gives, for each URL, the network its probe meets.
\<close>

fun collect :: "pylib \<Rightarrow> (string \<Rightarrow> net) \<Rightarrow> string list \<Rightarrow> string list \<Rightarrow> (string \<times> string) list
                \<Rightarrow> (string list \<times> (string \<times> string) list) py" where
  "collect L world [] working broken = Some (Inr (working, broken))"
| "collect L world (f # futures) working broken =
     (case check_server L (world f) f of
        None \<Rightarrow> None
      | Some (Inl e) \<Rightarrow> Some (Inl e)
      | Some (Inr (url, success, message)) \<Rightarrow>
          if success then collect L world futures (working @ [url]) broken
          else collect L world futures working (broken @ [(url, message)]))"

text \<open>
  \<^verbatim>\<open>main\<close> from line 164 on, with the two extracted lists as arguments. The result
  is the final value of \<^verbatim>\<open>all_servers\<close>, \<^verbatim>\<open>working\<close> and \<^verbatim>\<open>broken\<close> and the exit
  status (line 208). The parameter \<open>as_completed\<close> is the order in which the futures
  complete. Leaving the \<^verbatim>\<open>with\<close> block of the executor waits for every submitted
  call, so an exception of \<^verbatim>\<open>future.result()\<close> leaves \<^verbatim>\<open>main\<close> only when every
  call ends.
\<close>

definition main :: "pylib \<Rightarrow> (string \<Rightarrow> net) \<Rightarrow> (string list \<Rightarrow> string list)
                     \<Rightarrow> string list \<Rightarrow> string list
                     \<Rightarrow> (string list \<times> string list \<times> (string \<times> string) list \<times> nat) py" where
  "main L world as_completed rust_servers ts_servers =
     (let servers = all_servers rust_servers ts_servers
      in case collect L world (as_completed servers) [] [] of
           None \<Rightarrow> None
         | Some (Inl e) \<Rightarrow>
             if list_all (\<lambda>url. check_server L (world url) url \<noteq> None) servers
             then Some (Inl e) else None
         | Some (Inr (working, broken)) \<Rightarrow>
             Some (Inr (servers, working, broken, if length broken = 0 then 0 else 1)))"

section \<open>A reference instance of the library\<close>

text \<open>
  The decoders of CPython 3.11, for the examples that are evaluated below: the strict
  UTF-8 decoder and the scanner of the \<^verbatim>\<open>json\<close> module, with the messages of their
  exceptions. Not modelled: the recursion limit of the interpreter, which turns a
  deeply nested document into a \<^verbatim>\<open>RecursionError\<close>.
\<close>

subsection \<open>\<^verbatim>\<open>bytes.decode()\<close>\<close>

definition is_cont :: "nat \<Rightarrow> bool" where
  "is_cont b = (0x80 \<le> b \<and> b \<le> 0xBF)"

fun utf8 :: "nat \<Rightarrow> nat list \<Rightarrow> (string \<times> nat \<times> nat) + ustr" where
  "utf8 i [] = Inr []"
| "utf8 i (ch # s) =
     (if ch < 0x80 then map_sum id ((#) ch) (utf8 (i + 1) s)
      else if ch < 0xC2 then Inl (''invalid start byte'', i, i + 1)
      else if ch < 0xE0 then
        (case s of
           [] \<Rightarrow> Inl (''unexpected end of data'', i, i + 1)
         | ch2 # s2 \<Rightarrow>
             if \<not> is_cont ch2 then Inl (''invalid continuation byte'', i, i + 1)
             else map_sum id ((#) ((ch - 0xC0) * 64 + (ch2 - 0x80))) (utf8 (i + 2) s2))
      else if ch < 0xF0 then
        (case s of
           [] \<Rightarrow> Inl (''unexpected end of data'', i, i + 1)
         | ch2 # s2 \<Rightarrow>
             if \<not> is_cont ch2 \<or> (if ch2 < 0xA0 then ch = 0xE0 else ch = 0xED)
             then Inl (''invalid continuation byte'', i, i + 1)
             else (case s2 of
                     [] \<Rightarrow> Inl (''unexpected end of data'', i, i + 2)
                   | ch3 # s3 \<Rightarrow>
                       if \<not> is_cont ch3 then Inl (''invalid continuation byte'', i, i + 2)
                       else map_sum id
                              ((#) ((ch - 0xE0) * 4096 + (ch2 - 0x80) * 64 + (ch3 - 0x80)))
                              (utf8 (i + 3) s3)))
      else if ch < 0xF5 then
        (case s of
           [] \<Rightarrow> Inl (''unexpected end of data'', i, i + 1)
         | ch2 # s2 \<Rightarrow>
             if \<not> is_cont ch2 \<or> (if ch2 < 0x90 then ch = 0xF0 else ch = 0xF4)
             then Inl (''invalid continuation byte'', i, i + 1)
             else (case s2 of
                     [] \<Rightarrow> Inl (''unexpected end of data'', i, i + 2)
                   | ch3 # s3 \<Rightarrow>
                       if \<not> is_cont ch3 then Inl (''invalid continuation byte'', i, i + 2)
                       else (case s3 of
                               [] \<Rightarrow> Inl (''unexpected end of data'', i, i + 3)
                             | ch4 # s4 \<Rightarrow>
                                 if \<not> is_cont ch4
                                 then Inl (''invalid continuation byte'', i, i + 3)
                                 else map_sum id
                                        ((#) ((ch - 0xF0) * 262144 + (ch2 - 0x80) * 4096
                                              + (ch3 - 0x80) * 64 + (ch4 - 0x80)))
                                        (utf8 (i + 4) s4))))
      else Inl (''invalid start byte'', i, i + 1))"

definition utf8_decode :: "string \<Rightarrow> exn + ustr" where
  \<open>utf8_decode bs =
     (case utf8 0 (map ord bs) of
        Inr text \<Rightarrow> Inr text
      | Inl (reason, start, stop) \<Rightarrow>
          Inl (ValueError
            (if stop = start + 1
             then [CHR 0x27] @ ''utf-8'' @ [CHR 0x27] @ '' codec can't decode byte 0x''
                  @ [hex_char (ord (bs ! start) div 16), hex_char (ord (bs ! start) mod 16)]
                  @ '' in position '' @ show_nat start @ '': '' @ reason
             else [CHR 0x27] @ ''utf-8'' @ [CHR 0x27] @ '' codec can't decode bytes in position ''
                  @ show_nat start @ ''-'' @ show_nat (stop - 1) @ '': '' @ reason)))\<close>

subsection \<open>\<^verbatim>\<open>json.loads\<close>\<close>

datatype jerr = JSONDecodeError string nat | IntLimit nat | Budget

definition json_ws :: "nat \<Rightarrow> bool" where
  "json_ws c = (c = 0x20 \<or> c = 0x09 \<or> c = 0x0A \<or> c = 0x0D)"

definition skip_ws :: "ustr \<Rightarrow> nat \<Rightarrow> ustr \<times> nat" where
  "skip_ws s i = (dropWhile json_ws s, i + length (takeWhile json_ws s))"

definition hexval :: "nat \<Rightarrow> nat option" where
  "hexval c = (if 0x30 \<le> c \<and> c \<le> 0x39 then Some (c - 0x30)
               else if 0x61 \<le> c \<and> c \<le> 0x66 then Some (c - 0x57)
               else if 0x41 \<le> c \<and> c \<le> 0x46 then Some (c - 0x37)
               else None)"

definition hex4 :: "nat \<Rightarrow> nat \<Rightarrow> nat \<Rightarrow> nat \<Rightarrow> nat option" where
  "hex4 a b c d =
     (case (hexval a, hexval b, hexval c, hexval d) of
        (Some w, Some x, Some y, Some z) \<Rightarrow> Some (((w * 16 + x) * 16 + y) * 16 + z)
      | _ \<Rightarrow> None)"

definition unescape :: "nat \<Rightarrow> nat option" where
  "unescape e =
     (if e = 0x22 \<or> e = 0x5C \<or> e = 0x2F then Some e
      else if e = 0x62 then Some 0x08
      else if e = 0x66 then Some 0x0C
      else if e = 0x6E then Some 0x0A
      else if e = 0x72 then Some 0x0D
      else if e = 0x74 then Some 0x09
      else None)"

fun scanstring :: "nat \<Rightarrow> ustr \<Rightarrow> ustr \<Rightarrow> nat \<Rightarrow> jerr + (ustr \<times> ustr \<times> nat)" where
  "scanstring b acc [] i = Inl (JSONDecodeError ''Unterminated string starting at'' b)"
| "scanstring b acc (c # cs) i =
     (if c = 0x22 then Inr (acc, cs, i + 1)
      else if c = 0x5C then
        (case cs of
           [] \<Rightarrow> Inl (JSONDecodeError ''Unterminated string starting at'' b)
         | e # r \<Rightarrow>
             if e = 0x75 then
               (case r of
                  h1 # h2 # h3 # h4 # r4 \<Rightarrow>
                    (case hex4 h1 h2 h3 h4 of
                       None \<Rightarrow> Inl (JSONDecodeError (''Invalid '' @ [CHR 0x5C] @ ''uXXXX escape'') (i + 1))
                     | Some c1 \<Rightarrow>
                         (case r4 of
                            s1 # s2 # g1 # g2 # g3 # g4 # r10 \<Rightarrow>
                              if 0xD800 \<le> c1 \<and> c1 \<le> 0xDBFF \<and> s1 = 0x5C \<and> s2 = 0x75
                              then (case hex4 g1 g2 g3 g4 of
                                      None \<Rightarrow> Inl (JSONDecodeError (''Invalid '' @ [CHR 0x5C] @ ''uXXXX escape'') (i + 7))
                                    | Some c2 \<Rightarrow>
                                        if 0xDC00 \<le> c2 \<and> c2 \<le> 0xDFFF
                                        then scanstring b
                                               (acc @ [0x10000 + (c1 - 0xD800) * 1024 + (c2 - 0xDC00)])
                                               r10 (i + 12)
                                        else scanstring b (acc @ [c1]) r4 (i + 6))
                              else scanstring b (acc @ [c1]) r4 (i + 6)
                          | _ \<Rightarrow> scanstring b (acc @ [c1]) r4 (i + 6)))
                | _ \<Rightarrow> Inl (JSONDecodeError (''Invalid '' @ [CHR 0x5C] @ ''uXXXX escape'') (i + 1)))
             else (case unescape e of
                     None \<Rightarrow> Inl (JSONDecodeError (''Invalid '' @ [CHR 0x5C] @ ''escape'') i)
                   | Some x \<Rightarrow> scanstring b (acc @ [x]) r (i + 2)))
      else if c \<le> 0x1F then Inl (JSONDecodeError ''Invalid control character at'' i)
      else scanstring b (acc @ [c]) cs (i + 1))"

definition isdig :: "nat \<Rightarrow> bool" where
  "isdig c = (0x30 \<le> c \<and> c \<le> 0x39)"

definition match_number :: "ustr \<Rightarrow> (bool \<times> nat) option" where
  "match_number s =
     (let sign = (case s of c # _ \<Rightarrow> if c = 0x2D then 1 else 0 | [] \<Rightarrow> (0::nat));
          s1 = drop sign s;
          intpart = (case s1 of
                       [] \<Rightarrow> 0
                     | d # r \<Rightarrow> if d = 0x30 then 1
                                else if isdig d then 1 + length (takeWhile isdig r) else 0);
          s2 = drop intpart s1;
          frac = (case s2 of
                    dot # d # r \<Rightarrow> if dot = 0x2E \<and> isdig d then 2 + length (takeWhile isdig r) else 0
                  | _ \<Rightarrow> 0);
          s3 = drop frac s2;
          expo = (case s3 of
                    e # r \<Rightarrow>
                      if e = 0x65 \<or> e = 0x45
                      then (let sg = (case r of c # _ \<Rightarrow> if c = 0x2B \<or> c = 0x2D then 1 else 0 | [] \<Rightarrow> (0::nat));
                                ds = length (takeWhile isdig (drop sg r))
                            in if 0 < ds then 1 + sg + ds else 0)
                      else 0
                  | [] \<Rightarrow> 0)
      in if intpart = 0 then None
         else Some (0 < frac \<or> 0 < expo, sign + intpart + frac + expo))"

definition number_value :: "ustr \<Rightarrow> bool \<Rightarrow> jerr + json" where
  "number_value lit is_float =
     (if is_float then Inr (JFloat lit)
      else (let digits = filter isdig lit
            in if 4300 < length digits then Inl (IntLimit (length digits))
               else (let n = int (foldl (\<lambda>n c. 10 * n + (c - 0x30)) 0 digits)
                     in Inr (JInt (if take 1 lit = [0x2D] then - n else n)))))"

fun scan_once :: "nat \<Rightarrow> ustr \<Rightarrow> nat \<Rightarrow> jerr + (json \<times> ustr \<times> nat)"
and parse_object :: "nat \<Rightarrow> (ustr \<times> json) list \<Rightarrow> ustr \<Rightarrow> nat \<Rightarrow> jerr + (json \<times> ustr \<times> nat)"
and parse_array :: "nat \<Rightarrow> json list \<Rightarrow> ustr \<Rightarrow> nat \<Rightarrow> jerr + (json \<times> ustr \<times> nat)" where
  "scan_once 0 s i = Inl Budget"
| "scan_once (Suc n) s i =
     (case s of
        [] \<Rightarrow> Inl (JSONDecodeError ''Expecting value'' i)
      | c # cs \<Rightarrow>
          if c = 0x22 then
            (case scanstring i [] cs (i + 1) of
               Inl e \<Rightarrow> Inl e
             | Inr (text, r, j) \<Rightarrow> Inr (JString text, r, j))
          else if c = 0x7B then
            (case skip_ws cs (i + 1) of
               (r, j) \<Rightarrow> if take 1 r = [0x7D] then Inr (JObject [], drop 1 r, j + 1)
                          else parse_object n [] r j)
          else if c = 0x5B then
            (case skip_ws cs (i + 1) of
               (r, j) \<Rightarrow> if take 1 r = [0x5D] then Inr (JArray [], drop 1 r, j + 1)
                          else parse_array n [] r j)
          else if take 4 s = u ''null'' then Inr (JNull, drop 4 s, i + 4)
          else if take 4 s = u ''true'' then Inr (JBool True, drop 4 s, i + 4)
          else if take 5 s = u ''false'' then Inr (JBool False, drop 5 s, i + 5)
          else if take 3 s = u ''NaN'' then Inr (JFloat (u ''NaN''), drop 3 s, i + 3)
          else if take 8 s = u ''Infinity'' then Inr (JFloat (u ''Infinity''), drop 8 s, i + 8)
          else if take 9 s = u ''-Infinity'' then Inr (JFloat (u ''-Infinity''), drop 9 s, i + 9)
          else (case match_number s of
                  None \<Rightarrow> Inl (JSONDecodeError ''Expecting value'' i)
                | Some (is_float, len) \<Rightarrow>
                    (case number_value (take len s) is_float of
                       Inl e \<Rightarrow> Inl e
                     | Inr v \<Rightarrow> Inr (v, drop len s, i + len))))"
| "parse_object 0 pairs s i = Inl Budget"
| "parse_object (Suc n) pairs s i =
     (if take 1 s \<noteq> [0x22]
      then Inl (JSONDecodeError ''Expecting property name enclosed in double quotes'' i)
      else (case scanstring i [] (drop 1 s) (i + 1) of
              Inl e \<Rightarrow> Inl e
            | Inr (key, r, j) \<Rightarrow>
                (case skip_ws r j of
                   (r, j) \<Rightarrow>
                     if take 1 r \<noteq> [0x3A]
                     then Inl (JSONDecodeError ''Expecting ':' delimiter'' j)
                     else (case skip_ws (drop 1 r) (j + 1) of
                             (r, j) \<Rightarrow>
                               (case scan_once n r j of
                                  Inl e \<Rightarrow> Inl e
                                | Inr (val, r, j) \<Rightarrow>
                                    (case skip_ws r j of
                                       (r, j) \<Rightarrow>
                                         if take 1 r = [0x7D]
                                         then Inr (JObject (pairs @ [(key, val)]), drop 1 r, j + 1)
                                         else if take 1 r \<noteq> [0x2C]
                                         then Inl (JSONDecodeError ''Expecting ',' delimiter'' j)
                                         else (case skip_ws (drop 1 r) (j + 1) of
                                                 (r, j) \<Rightarrow> parse_object n (pairs @ [(key, val)]) r j)))))))"
| "parse_array 0 vals s i = Inl Budget"
| "parse_array (Suc n) vals s i =
     (case scan_once n s i of
        Inl e \<Rightarrow> Inl e
      | Inr (val, r, j) \<Rightarrow>
          (case skip_ws r j of
             (r, j) \<Rightarrow>
               if take 1 r = [0x5D] then Inr (JArray (vals @ [val]), drop 1 r, j + 1)
               else if take 1 r \<noteq> [0x2C]
               then Inl (JSONDecodeError ''Expecting ',' delimiter'' j)
               else (case skip_ws (drop 1 r) (j + 1) of
                       (r, j) \<Rightarrow> parse_array n (vals @ [val]) r j)))"

definition errmsg :: "string \<Rightarrow> ustr \<Rightarrow> nat \<Rightarrow> string" where
  "errmsg msg doc pos =
     (let pre = take pos doc;
          lineno = length (filter (\<lambda>c. c = 0x0A) pre) + 1;
          colno = length (takeWhile (\<lambda>c. c \<noteq> 0x0A) (rev pre)) + 1
      in msg @ '': line '' @ show_nat lineno @ '' column '' @ show_nat colno
           @ '' (char '' @ show_nat pos @ '')'')"

definition raise_jerr :: "ustr \<Rightarrow> jerr \<Rightarrow> exn" where
  "raise_jerr doc e =
     (case e of
        JSONDecodeError msg pos \<Rightarrow> ValueError (errmsg msg doc pos)
      | IntLimit digits \<Rightarrow>
          ValueError (''Exceeds the limit (4300 digits) for integer string conversion: value has ''
            @ show_nat digits @ '' digits; use sys.set_int_max_str_digits() to increase the limit'')
      | Budget \<Rightarrow> RecursionError ''maximum recursion depth exceeded'')"

definition loads :: "ustr \<Rightarrow> exn + json" where
  "loads s =
     (if take 1 s = [0xFEFF]
      then Inl (raise_jerr s (JSONDecodeError ''Unexpected UTF-8 BOM (decode using utf-8-sig)'' 0))
      else (case skip_ws s 0 of
              (r, i) \<Rightarrow>
                (case scan_once (Suc (length s)) r i of
                   Inl e \<Rightarrow> Inl (raise_jerr s e)
                 | Inr (obj, r, j) \<Rightarrow>
                     (case skip_ws r j of
                        (r, stop) \<Rightarrow>
                          if r \<noteq> [] then Inl (raise_jerr s (JSONDecodeError ''Extra data'' stop))
                          else Inr obj))))"

text \<open>IP literals are not validated by the reference instance; no example below has one.\<close>

definition cpython :: pylib where
  "cpython = \<lparr>check_bracketed_netloc = (\<lambda>netloc. None), bytes_decode = utf8_decode,
               json_loads = loads\<rparr>"

section \<open>Some networks\<close>

text \<open>A peer that accepts the request, answers with the given chunks, one for each call
  of \<^verbatim>\<open>recv\<close>, and then closes the connection.\<close>

definition peer_sending :: "string list \<Rightarrow> peer" where
  "peer_sending chunks =
     \<lparr>on_sendall = (\<lambda>data. None),
      on_recv = (\<lambda>k. if k < length chunks then Inr (chunks ! k) else Inr [])\<rparr>"

text \<open>A peer that sends one byte, never a line feed, on each call of \<^verbatim>\<open>recv\<close>.\<close>

definition peer_dripping :: peer where
  "peer_dripping = \<lparr>on_sendall = (\<lambda>data. None), on_recv = (\<lambda>k. Inr ''a'')\<rparr>"

text \<open>A network in which every step up to the connection succeeds.\<close>

definition connected_to :: "peer \<Rightarrow> net" where
  "connected_to p =
     \<lparr>on_create_default_context = None, on_socket = None, on_wrap_socket = (\<lambda>host. None),
      on_connect = (\<lambda>host port. Inr p)\<rparr>"

text \<open>A network in which \<^verbatim>\<open>connect\<close> raises the given exception.\<close>

definition failing_connect :: "exn \<Rightarrow> net" where
  "failing_connect e =
     \<lparr>on_create_default_context = None, on_socket = None, on_wrap_socket = (\<lambda>host. None),
      on_connect = (\<lambda>host port. Inl e)\<rparr>"

section \<open>Notions used by the statements\<close>

text \<open>Whether the call of \<^verbatim>\<open>check_server\<close> for a URL returns an outcome, and the
  \<^verbatim>\<open>success\<close> and \<^verbatim>\<open>message\<close> components of that outcome.\<close>

definition returns :: "pylib \<Rightarrow> (string \<Rightarrow> net) \<Rightarrow> string \<Rightarrow> bool" where
  "returns L world url = (\<exists>outcome. check_server L (world url) url = Some (Inr outcome))"

definition succeeded :: "pylib \<Rightarrow> (string \<Rightarrow> net) \<Rightarrow> string \<Rightarrow> bool" where
  "succeeded L world url =
     (case check_server L (world url) url of Some (Inr (v, success, message)) \<Rightarrow> success | _ \<Rightarrow> False)"

definition detail :: "pylib \<Rightarrow> (string \<Rightarrow> net) \<Rightarrow> string \<Rightarrow> string" where
  "detail L world url =
     (case check_server L (world url) url of Some (Inr (v, success, message)) \<Rightarrow> message | _ \<Rightarrow> [])"

text \<open>A run used as an example: every server answers the request with the reply
  \<^verbatim>\<open>{"id":1,"result":[0,"abc"]}\<close> and a line feed; the two extracted lists share a URL.\<close>

definition reply_ok :: string where
  \<open>reply_ok = ''{"id":1,"result":[0,"abc"]}'' @ [CHR 0x0A]\<close>

definition example_world :: "string \<Rightarrow> net" where
  "example_world url = connected_to (peer_sending [reply_ok])"

definition example_rust :: "string list" where
  "example_rust = [''tcp://host:50001'', ''ftp://host:21'']"

definition example_ts :: "string list" where
  "example_ts = [''ftp://host:21'', ''ssl://host:50002'', ''tcp://'']"

text \<open>A probe gets as far as the end of its read loop, with \<open>response\<close> accumulated:
  every step before the loop returns and the loop ends without an exception.\<close>

definition tcp_reads :: "net \<Rightarrow> string \<Rightarrow> nat \<Rightarrow> string \<Rightarrow> bool" where
  "tcp_reads n host port response =
     (on_socket n = None
      \<and> (case on_connect n host port of
            Inl e \<Rightarrow> False
          | Inr sock \<Rightarrow> on_sendall sock request = None
                        \<and> recv_loop (on_recv sock) 0 [] = Some (Inr response)))"

definition ssl_reads :: "net \<Rightarrow> string \<Rightarrow> nat \<Rightarrow> string \<Rightarrow> bool" where
  "ssl_reads n host port response =
     (on_create_default_context n = None \<and> on_socket n = None \<and> on_wrap_socket n host = None
      \<and> (case on_connect n host port of
            Inl e \<Rightarrow> False
          | Inr ssock \<Rightarrow> on_sendall ssock request = None
                         \<and> recv_loop (on_recv ssock) 0 [] = Some (Inr response)))"

text \<open>Some call of \<^verbatim>\<open>recv\<close> raises, finds the connection closed, or returns a chunk
  with a line feed in it.\<close>

definition recv_ends :: "(nat \<Rightarrow> exn + string) \<Rightarrow> bool" where
  "recv_ends recv =
     (\<exists>k. case recv k of Inl e \<Rightarrow> True | Inr chunk \<Rightarrow> chunk = [] \<or> CHR 0x0A \<in> set chunk)"

text \<open>Exceptions of the three classes the handlers name.\<close>

definition socket_timeout :: exn where
  "socket_timeout = \<lparr>is_timeout = True, is_refused = False, is_ssl = False, exn_str = ''timed out''\<rparr>"

definition connection_refused :: exn where
  "connection_refused = \<lparr>is_timeout = False, is_refused = True, is_ssl = False,
                          exn_str = ''[Errno 111] Connection refused''\<rparr>"

definition ssl_error :: "string \<Rightarrow> exn" where
  "ssl_error m = \<lparr>is_timeout = False, is_refused = False, is_ssl = True, exn_str = m\<rparr>"

text \<open>A peer that accepts the request and then stays silent: every \<^verbatim>\<open>recv\<close> runs into
  the timeout of the socket.\<close>

definition peer_silent :: peer where
  "peer_silent = \<lparr>on_sendall = (\<lambda>data. None), on_recv = (\<lambda>k. Inl socket_timeout)\<rparr>"

text \<open>Two more replies: one that is not JSON, and the empty object.\<close>

definition reply_hello :: string where
  \<open>reply_hello = ''hello'' @ [CHR 0x0A]\<close>

definition reply_empty_object :: string where
  \<open>reply_empty_object = ''{}'' @ [CHR 0x0A]\<close>

text \<open>A reply of two lines that arrive in one chunk.\<close>

definition reply_two_lines :: string where
  \<open>reply_two_lines = ''{"id":1,"result":[0,"abc"]}'' @ [CHR 0x0A] @ ''{"id":2}'' @ [CHR 0x0A]\<close>

chapter \<open>Properties\<close>

section \<open>Evaluation of the examples\<close>

lemmas url_defs = check_server_def urlparse_def hostinfo_def hostname_of_def port_of_def
  str_partition_def str_rpartition_def scheme_char_def isalpha_ascii_def isdigit_def
  lower_def ord_def int_of_digits_def Let_def

lemma recv_loop_one_line:
  "chunk \<noteq> [] \<Longrightarrow> CHR 0x0A \<in> set chunk \<Longrightarrow>
     recv_loop (on_recv (peer_sending [chunk])) 0 [] = Some (Inr chunk)"
  by (subst recv_loop.simps) (simp add: peer_sending_def)

lemma recv_loop_closed: "recv_loop (on_recv (peer_sending [])) 0 [] = Some (Inr [])"
  by (subst recv_loop.simps) (simp add: peer_sending_def)

lemma read_response_reply_ok: "read_response cpython reply_ok = Inr (True, ''OK'')"
  by code_simp

lemma exchange_reply_ok: "exchange cpython (peer_sending [reply_ok]) = Some (Inr (True, ''OK''))"
proof -
  have "recv_loop (on_recv (peer_sending [reply_ok])) 0 [] = Some (Inr reply_ok)"
    by (rule recv_loop_one_line) (simp_all add: reply_ok_def)
  moreover have "on_sendall (peer_sending [reply_ok]) request = None"
    by (simp add: peer_sending_def)
  ultimately show ?thesis
    by (simp add: exchange_def read_response_reply_ok)
qed

lemma check_tcp_server_reply_ok:
  "check_tcp_server cpython (connected_to (peer_sending [reply_ok])) host port = Some (True, ''OK'')"
  by (simp add: check_tcp_server_def tcp_try_def connected_to_def exchange_reply_ok)

lemma check_ssl_server_reply_ok:
  "check_ssl_server cpython (connected_to (peer_sending [reply_ok])) host port = Some (True, ''OK'')"
  by (simp add: check_ssl_server_def ssl_try_def connected_to_def exchange_reply_ok)

lemma example_returns:
  "\<forall>url \<in> set (example_rust @ example_ts). returns cpython example_world url"
proof -
  have "returns cpython example_world ''tcp://host:50001''"
    by (auto simp: returns_def example_world_def url_defs check_tcp_server_reply_ok)
  moreover have "returns cpython example_world ''ssl://host:50002''"
    by (auto simp: returns_def example_world_def url_defs check_ssl_server_reply_ok)
  moreover have "returns cpython example_world ''ftp://host:21''"
    by (auto simp: returns_def url_defs)
  moreover have "returns cpython example_world ''tcp://''"
    by (auto simp: returns_def url_defs)
  ultimately show ?thesis
    by (simp add: example_rust_def example_ts_def)
qed

section \<open>Deduplication and dispatch order\<close>

lemma sort_any_enumeration:
  "distinct ys \<Longrightarrow> set ys = set (rust_servers @ ts_servers) \<Longrightarrow>
     sort ys = all_servers rust_servers ts_servers"
  unfolding all_servers_def
  by (rule properties_for_sort) (simp_all add: set_eq_iff_mset_eq_distinct [symmetric])

lemma set_all_servers: "set (all_servers r t) = set (r @ t)"
  by (simp add: all_servers_def)

lemma distinct_all_servers: "distinct (all_servers r t)"
  by (simp add: all_servers_def)

lemma sorted_all_servers: "sorted (all_servers r t)"
  by (simp add: all_servers_def)

lemma length_all_servers: "length (all_servers r t) = card (set (r @ t))"
  using distinct_card [OF distinct_all_servers, of r t] by (simp add: set_all_servers)

text \<open>
  Claim C7. The list \<^verbatim>\<open>all_servers\<close>, in whose order the calls are submitted to the
  executor, has no repeated element, is sorted in the order of Python strings, and has
  exactly the URLs of the input: each URL of the input occurs in it once, whatever the
  number of its occurrences in the input.
\<close>

theorem dispatch_sorted_distinct:
  "distinct (all_servers rust_servers ts_servers)
   \<and> sorted (all_servers rust_servers ts_servers)
   \<and> set (all_servers rust_servers ts_servers) = set (rust_servers @ ts_servers)
   \<and> count_list (all_servers rust_servers ts_servers) url
       = of_bool (url \<in> set (rust_servers @ ts_servers))"
proof -
  have "count_list (all_servers rust_servers ts_servers) url
          = of_bool (url \<in> set (all_servers rust_servers ts_servers))"
    using distinct_all_servers [of rust_servers ts_servers]
    by (simp add: distinct_count_atmost_1 count_mset [symmetric])
  then show ?thesis
    by (simp add: distinct_all_servers sorted_all_servers set_all_servers)
qed

section \<open>The collected report\<close>

lemma check_server_url:
  "check_server L n url = Some (Inr (v, success, message)) \<Longrightarrow> v = url"
  by (auto simp: check_server_def Let_def split: sum.splits if_splits)

text \<open>When every call returns, the loop files each URL of the completion order under
  \<^verbatim>\<open>working\<close> or under \<^verbatim>\<open>broken\<close>, in that order.\<close>

lemma collect_all_return:
  "list_all (returns L world) fs \<Longrightarrow>
     collect L world fs working broken =
       Some (Inr (working @ filter (succeeded L world) fs,
                  broken @ map (\<lambda>f. (f, detail L world f)) (filter (\<lambda>f. \<not> succeeded L world f) fs)))"
proof (induction fs arbitrary: working broken)
  case Nil
  then show ?case by simp
next
  case (Cons f fs)
  from Cons.prems obtain v success message
    where r: "check_server L (world f) f = Some (Inr (v, success, message))"
    by (auto simp: returns_def)
  then have v: "v = f" by (rule check_server_url)
  from Cons.prems have rest: "list_all (returns L world) fs" by simp
  show ?case
    using r v Cons.IH [OF rest] by (simp add: succeeded_def detail_def)
qed

lemma main_all_return:
  assumes "list_all (returns L world) (as_completed (all_servers r t))"
  shows "main L world as_completed r t =
           Some (Inr (all_servers r t,
                      filter (succeeded L world) (as_completed (all_servers r t)),
                      map (\<lambda>f. (f, detail L world f))
                        (filter (\<lambda>f. \<not> succeeded L world f) (as_completed (all_servers r t))),
                      if filter (\<lambda>f. \<not> succeeded L world f) (as_completed (all_servers r t)) = []
                      then 0 else 1))"
  by (simp add: main_def Let_def collect_all_return [OF assms])

lemma perm_facts:
  assumes "mset order = mset servers" "distinct servers"
  shows "distinct order" "set order = set servers" "length order = length servers"
  using assms mset_eq_setD mset_eq_length mset_eq_imp_distinct_iff by metis+

text \<open>
  Let the futures complete in any order that yields each of them once, and let every
  call of \<^verbatim>\<open>check_server\<close> return an outcome. Then \<^verbatim>\<open>main\<close> reaches its summary,
  and there \<^verbatim>\<open>working\<close> and the URLs of \<^verbatim>\<open>broken\<close> have no repeated element, have
  no URL in common, together are the set of URLs of the input, and
  \<^verbatim>\<open>len(working) + len(broken)\<close> is the number of distinct URLs of the input.
\<close>

lemma report_partitions_input:
  assumes order: "mset (as_completed (all_servers rust_servers ts_servers))
                    = mset (all_servers rust_servers ts_servers)"
      and complete: "\<forall>url \<in> set (rust_servers @ ts_servers). returns L world url"
  shows "\<exists>working broken status.
           main L world as_completed rust_servers ts_servers
             = Some (Inr (all_servers rust_servers ts_servers, working, broken, status))
           \<and> distinct working \<and> distinct (map fst broken)
           \<and> set working \<inter> fst ` set broken = {}
           \<and> set working \<union> fst ` set broken = set (rust_servers @ ts_servers)
           \<and> length working + length broken = card (set (rust_servers @ ts_servers))"
proof -
  let ?s = "all_servers rust_servers ts_servers"
  let ?o = "as_completed ?s"
  have d: "distinct ?o" and s: "set ?o = set (rust_servers @ ts_servers)"
    and l: "length ?o = card (set (rust_servers @ ts_servers))"
    using perm_facts [OF order distinct_all_servers]
    by (simp_all add: set_all_servers length_all_servers del: set_append)
  from complete s have "list_all (returns L world) ?o"
    by (simp add: list_all_iff del: set_append)
  note m = main_all_return [of L world as_completed rust_servers ts_servers, OF this]
  let ?w = "filter (succeeded L world) ?o"
  let ?b = "map (\<lambda>f. (f, detail L world f)) (filter (\<lambda>f. \<not> succeeded L world f) ?o)"
  have fst_b: "map fst ?b = filter (\<lambda>f. \<not> succeeded L world f) ?o"
    by (simp add: comp_def)
  have "distinct ?w" using d by simp
  moreover have "distinct (map fst ?b)" using d by (simp only: fst_b distinct_filter)
  moreover have "set ?w \<inter> fst ` set ?b = {}"
    by (simp only: set_map [symmetric] fst_b) auto
  moreover have "set ?w \<union> fst ` set ?b = set (rust_servers @ ts_servers)"
    by (simp only: set_map [symmetric] fst_b s [symmetric]) auto
  moreover have "length ?w + length ?b = card (set (rust_servers @ ts_servers))"
    using sum_length_filter_compl [of "succeeded L world" ?o] l by simp
  ultimately show ?thesis using m by blast
qed

lemma report_partitions_input_example:
  "\<exists>working broken status.
     main cpython example_world rev example_rust example_ts
       = Some (Inr (all_servers example_rust example_ts, working, broken, status))
     \<and> distinct working \<and> distinct (map fst broken)
     \<and> set working \<inter> fst ` set broken = {}
     \<and> set working \<union> fst ` set broken = set (example_rust @ example_ts)
     \<and> length working + length broken = card (set (example_rust @ example_ts))"
proof (rule report_partitions_input)
  show "mset (rev (all_servers example_rust example_ts)) = mset (all_servers example_rust example_ts)"
    by simp
  show "\<forall>url \<in> set (example_rust @ example_ts). returns cpython example_world url"
    by (rule example_returns)
qed

lemma check_server_bad_port:
  "check_server L n ''tcp://host:abc''
     = Some (Inl (ValueError (''Port could not be cast to integer value as ''
                               @ [CHR 0x27] @ ''abc'' @ [CHR 0x27])))"
  by (simp add: url_defs repr_def repr_char_def)

text \<open>
  Claim C1. The report does not partition every input: for the input list with the one
  URL \<^verbatim>\<open>tcp://host:abc\<close> the call of \<^verbatim>\<open>check_server\<close> raises
  \<^verbatim>\<open>ValueError\<close>, \<^verbatim>\<open>future.result()\<close> raises it again in the loop of
  \<^verbatim>\<open>main\<close>, and \<^verbatim>\<open>main\<close> ends with that exception, before any summary, for
  every library and every network. When no call raises, the report is the partition the
  claim describes (lemma \<open>report_partitions_input\<close>).
\<close>

theorem main_aborts_on_bad_port:
  "main L world (\<lambda>servers. servers) [''tcp://host:abc''] []
     = Some (Inl (ValueError (''Port could not be cast to integer value as ''
                               @ [CHR 0x27] @ ''abc'' @ [CHR 0x27])))"
  by (simp add: main_def all_servers_def check_server_bad_port)

text \<open>
  Claim C8. For a fixed outcome of every URL, two runs whose futures complete in
  different orders end with the same set of working URLs, the same set of broken pairs,
  the same two lengths and the same exit status, and in both the number of servers is
  \<^verbatim>\<open>len(working) + len(broken)\<close>.
\<close>

theorem report_order_independent:
  assumes order1: "mset (order1 (all_servers rust_servers ts_servers))
                    = mset (all_servers rust_servers ts_servers)"
      and order2: "mset (order2 (all_servers rust_servers ts_servers))
                    = mset (all_servers rust_servers ts_servers)"
      and complete: "\<forall>url \<in> set (rust_servers @ ts_servers). returns L world url"
  shows "\<exists>servers working1 broken1 working2 broken2 status.
           main L world order1 rust_servers ts_servers
             = Some (Inr (servers, working1, broken1, status))
           \<and> main L world order2 rust_servers ts_servers
             = Some (Inr (servers, working2, broken2, status))
           \<and> set working1 = set working2 \<and> set broken1 = set broken2
           \<and> length working1 = length working2 \<and> length broken1 = length broken2
           \<and> length servers = length working1 + length broken1"
proof -
  let ?s = "all_servers rust_servers ts_servers"
  have p1: "distinct (order1 ?s)" "set (order1 ?s) = set ?s" "length (order1 ?s) = length ?s"
    using perm_facts [OF order1 distinct_all_servers] by simp_all
  have p2: "distinct (order2 ?s)" "set (order2 ?s) = set ?s" "length (order2 ?s) = length ?s"
    using perm_facts [OF order2 distinct_all_servers] by simp_all
  have c1: "list_all (returns L world) (order1 ?s)"
    using complete p1(2) by (simp add: list_all_iff set_all_servers del: set_append)
  have c2: "list_all (returns L world) (order2 ?s)"
    using complete p2(2) by (simp add: list_all_iff set_all_servers del: set_append)
  have mf: "mset (filter P (order1 ?s)) = mset (filter P (order2 ?s))" for P
    using order1 order2 by (metis mset_filter)
  have sets: "set (filter P (order1 ?s)) = set (filter P (order2 ?s))" for P
    using p1(2) p2(2) by simp
  have lens: "length (filter P (order1 ?s)) = length (filter P (order2 ?s))" for P
    using mf [of P] by (rule mset_eq_length)
  have empty: "(filter P (order1 ?s) = []) = (filter P (order2 ?s) = [])" for P
    using lens [of P] by (metis length_0_conv)
  have total: "length ?s = length (filter (succeeded L world) (order1 ?s))
                 + length (filter (\<lambda>f. \<not> succeeded L world f) (order1 ?s))"
    using sum_length_filter_compl [of "succeeded L world" "order1 ?s"] p1(3) by simp
  show ?thesis
    unfolding main_all_return [of L world order1 rust_servers ts_servers, OF c1]
      main_all_return [of L world order2 rust_servers ts_servers, OF c2]
    using sets lens empty total
    by (simp add: image_image)
qed

theorem report_order_independent_witness:
  "\<exists>servers working1 broken1 working2 broken2 status.
     main cpython example_world rev example_rust example_ts
       = Some (Inr (servers, working1, broken1, status))
     \<and> main cpython example_world id example_rust example_ts
       = Some (Inr (servers, working2, broken2, status))
     \<and> set working1 = set working2 \<and> set broken1 = set broken2
     \<and> length working1 = length working2 \<and> length broken1 = length broken2
     \<and> length servers = length working1 + length broken1"
proof (rule report_order_independent)
  show "mset (rev (all_servers example_rust example_ts)) = mset (all_servers example_rust example_ts)"
    by simp
  show "mset (id (all_servers example_rust example_ts)) = mset (all_servers example_rust example_ts)"
    by simp
  show "\<forall>url \<in> set (example_rust @ example_ts). returns cpython example_world url"
    by (rule example_returns)
qed

section \<open>The URL handling of \<^verbatim>\<open>check_server\<close>\<close>

text \<open>
  Claim C6. On the four example URLs: \<^verbatim>\<open>tcp://host:50001\<close> is handed to
  \<^verbatim>\<open>check_tcp_server\<close> with host \<^verbatim>\<open>host\<close> and port 50001,
  \<^verbatim>\<open>ssl://host:50002\<close> to \<^verbatim>\<open>check_ssl_server\<close> with host \<^verbatim>\<open>host\<close> and port
  50002, \<^verbatim>\<open>ftp://host:21\<close> fails with \<^verbatim>\<open>Unknown protocol: ftp\<close>, and
  \<^verbatim>\<open>tcp://\<close> fails with \<^verbatim>\<open>Invalid URL format\<close>; this for every library and
  every network, so the result is a function of the URL alone.
\<close>

theorem check_server_examples:
  "check_server L n ''tcp://host:50001''
     = map_option (\<lambda>(success, message). Inr (''tcp://host:50001'', success, message))
         (check_tcp_server L n ''host'' 50001)
   \<and> check_server L n ''ssl://host:50002''
     = map_option (\<lambda>(success, message). Inr (''ssl://host:50002'', success, message))
         (check_ssl_server L n ''host'' 50002)
   \<and> check_server L n ''ftp://host:21''
     = Some (Inr (''ftp://host:21'', False, ''Unknown protocol: ftp''))
   \<and> check_server L n ''tcp://'' = Some (Inr (''tcp://'', False, ''Invalid URL format''))"
  by (simp add: url_defs)

lemma port_of_range: "port_of parsed = Inr (Some p) \<Longrightarrow> p \<le> 65535"
  by (auto simp: port_of_def split: option.splits if_splits)

text \<open>
  Claim C9. A URL whose port is the number 0 gets \<^verbatim>\<open>Invalid URL format\<close>, as one
  without a port does. The result of \<^verbatim>\<open>check_server\<close> is an exception of the URL
  parser, or one of the two failures that need no probe, or the result of a probe called
  with a host that is not empty and a port between 1 and 65535.
\<close>

theorem zero_port_is_invalid:
  "(urlparse (check_bracketed_netloc L) url = Inr parsed \<and> port_of parsed = Inr (Some 0)
      \<longrightarrow> check_server L n url = Some (Inr (url, False, ''Invalid URL format'')))
   \<and> ((\<exists>e. check_server L n url = Some (Inl e))
      \<or> check_server L n url = Some (Inr (url, False, ''Invalid URL format''))
      \<or> (\<exists>protocol. check_server L n url = Some (Inr (url, False, ''Unknown protocol: '' @ protocol)))
      \<or> (\<exists>host port. host \<noteq> [] \<and> 1 \<le> port \<and> port \<le> 65535
            \<and> (check_server L n url
                  = map_option (\<lambda>(success, message). Inr (url, success, message))
                      (check_tcp_server L n host port)
               \<or> check_server L n url
                  = map_option (\<lambda>(success, message). Inr (url, success, message))
                      (check_ssl_server L n host port))))"
proof (intro conjI impI)
  assume "urlparse (check_bracketed_netloc L) url = Inr parsed \<and> port_of parsed = Inr (Some 0)"
  then show "check_server L n url = Some (Inr (url, False, ''Invalid URL format''))"
    by (simp add: check_server_def Let_def)
next
  show "(\<exists>e. check_server L n url = Some (Inl e))
      \<or> check_server L n url = Some (Inr (url, False, ''Invalid URL format''))
      \<or> (\<exists>protocol. check_server L n url = Some (Inr (url, False, ''Unknown protocol: '' @ protocol)))
      \<or> (\<exists>host port. host \<noteq> [] \<and> 1 \<le> port \<and> port \<le> 65535
            \<and> (check_server L n url
                  = map_option (\<lambda>(success, message). Inr (url, success, message))
                      (check_tcp_server L n host port)
               \<or> check_server L n url
                  = map_option (\<lambda>(success, message). Inr (url, success, message))
                      (check_ssl_server L n host port)))"
  proof (cases "urlparse (check_bracketed_netloc L) url")
    case (Inl e)
    then show ?thesis by (simp add: check_server_def)
  next
    case (Inr parsed)
    show ?thesis
    proof (cases "port_of parsed")
      case (Inl e)
      with Inr show ?thesis by (simp add: check_server_def Let_def)
    next
      case port: (Inr port)
      show ?thesis
      proof (cases "hostname_of parsed = None \<or> hostname_of parsed = Some [] \<or> port = None \<or> port = Some 0")
        case True
        with Inr port show ?thesis by (simp add: check_server_def Let_def)
      next
        case False
        then obtain h p where hp: "hostname_of parsed = Some h" "h \<noteq> []" "port = Some p" "p \<noteq> 0"
          by auto
        from port hp(3) have "p \<le> 65535" by (simp add: port_of_range)
        with hp have ok: "h \<noteq> [] \<and> 1 \<le> p \<and> p \<le> 65535" by simp
        show ?thesis
        proof (cases "scheme parsed = ''tcp''")
          case True
          with Inr port hp have "check_server L n url
                  = map_option (\<lambda>(success, message). Inr (url, success, message))
                      (check_tcp_server L n h p)"
            by (simp add: check_server_def Let_def)
          with ok show ?thesis by blast
        next
          case nt: False
          show ?thesis
          proof (cases "scheme parsed = ''ssl''")
            case True
            with nt Inr port hp have "check_server L n url
                  = map_option (\<lambda>(success, message). Inr (url, success, message))
                      (check_ssl_server L n h p)"
              by (simp add: check_server_def Let_def)
            with ok show ?thesis by blast
          next
            case False
            with nt Inr port hp have "check_server L n url
                  = Some (Inr (url, False, ''Unknown protocol: '' @ scheme parsed))"
              by (simp add: check_server_def Let_def)
            then show ?thesis by blast
          qed
        qed
      qed
    qed
  qed
qed

theorem zero_port_is_invalid_witness:
  "urlparse (check_bracketed_netloc cpython) ''tcp://host:0'' = Inr \<lparr>scheme = ''tcp'', netloc = ''host:0''\<rparr>
   \<and> port_of \<lparr>scheme = ''tcp'', netloc = ''host:0''\<rparr> = Inr (Some 0)
   \<and> check_server cpython (example_world ''tcp://host:0'') ''tcp://host:0''
       = Some (Inr (''tcp://host:0'', False, ''Invalid URL format''))"
proof -
  have p: "urlparse (check_bracketed_netloc cpython) ''tcp://host:0''
             = Inr \<lparr>scheme = ''tcp'', netloc = ''host:0''\<rparr>
           \<and> port_of \<lparr>scheme = ''tcp'', netloc = ''host:0''\<rparr> = Inr (Some 0)"
    by (simp add: url_defs)
  with zero_port_is_invalid [of cpython "''tcp://host:0''" "\<lparr>scheme = ''tcp'', netloc = ''host:0''\<rparr>"
      "example_world ''tcp://host:0''"]
  show ?thesis by blast
qed

text \<open>
  Claim C4. \<^verbatim>\<open>check_server\<close> does not return for every URL: a port that is not a
  number, or a number above 65535, makes the property \<^verbatim>\<open>port\<close> raise
  \<^verbatim>\<open>ValueError\<close>, which no handler of \<^verbatim>\<open>check_server\<close> catches.
\<close>

theorem check_server_raises_on_bad_port:
  "check_server L n ''tcp://host:abc''
     = Some (Inl (ValueError (''Port could not be cast to integer value as ''
                               @ [CHR 0x27] @ ''abc'' @ [CHR 0x27])))
   \<and> check_server L n ''tcp://host:65536'' = Some (Inl (ValueError ''Port out of range 0-65535''))"
  by (simp add: url_defs repr_def repr_char_def)

section \<open>The read loop\<close>

text \<open>The loop returns exactly when some call of \<^verbatim>\<open>recv\<close> raises, finds the
  connection closed, or returns a chunk with a line feed.\<close>

lemma recv_loop_returns:
  assumes "case recv k of Inl e \<Rightarrow> True | Inr chunk \<Rightarrow> chunk = [] \<or> CHR 0x0A \<in> set chunk"
      and "j \<le> k"
  shows "\<exists>y. recv_loop recv j response = Some y"
  using assms
proof (induction "k - j" arbitrary: j response)
  case 0
  then have "j = k" by simp
  with "0.prems"(1) show ?case
    by (subst recv_loop.simps) (auto split: sum.splits)
next
  case (Suc d)
  have "\<exists>y. recv_loop recv (Suc j) r = Some y" for r
    by (rule Suc.hyps(1)) (use Suc.hyps(2) Suc.prems in auto)
  then show ?case
    by (subst recv_loop.simps) (auto split: sum.splits)
qed

lemma recv_loop_Some_ends:
  assumes "recv_loop recv j response = Some y" and "CHR 0x0A \<notin> set response"
  shows "recv_ends recv"
proof -
  have "CHR 0x0A \<notin> set response \<longrightarrow> recv_ends recv"
  proof (rule recv_loop.raw_induct
      [where P = "\<lambda>recv k response y. CHR 0x0A \<notin> set response \<longrightarrow> recv_ends recv"])
    show "recv_loop recv j response = Some y" by fact
  next
    fix loop :: "(nat \<Rightarrow> exn + string) \<Rightarrow> nat \<Rightarrow> string \<Rightarrow> (exn + string) option"
    fix recv k response y
    assume IH: "\<And>r i b z. loop r i b = Some z \<Longrightarrow> CHR 0x0A \<notin> set b \<longrightarrow> recv_ends r"
    assume step: "(case recv k of
                     Inl e \<Rightarrow> Some (Inl e)
                   | Inr chunk \<Rightarrow>
                       if chunk = [] then Some (Inr response)
                       else if CHR 0x0A \<in> set (response @ chunk) then Some (Inr (response @ chunk))
                       else loop recv (Suc k) (response @ chunk)) = Some y"
    show "CHR 0x0A \<notin> set response \<longrightarrow> recv_ends recv"
    proof
      assume clean: "CHR 0x0A \<notin> set response"
      show "recv_ends recv"
      proof (cases "recv k")
        case (Inl e)
        then show ?thesis unfolding recv_ends_def by (intro exI [of _ k]) simp
      next
        case (Inr chunk)
        show ?thesis
        proof (cases "chunk = [] \<or> CHR 0x0A \<in> set chunk")
          case True
          with Inr show ?thesis unfolding recv_ends_def by (intro exI [of _ k]) simp
        next
          case False
          with Inr step clean have "loop recv (Suc k) (response @ chunk) = Some y"
            by simp
          from IH [OF this] False clean show ?thesis by simp
        qed
      qed
    qed
  qed
  with assms(2) show ?thesis by simp
qed

lemma recv_loop_ends_iff: "(recv_loop recv 0 [] \<noteq> None) = recv_ends recv"
proof
  assume "recv_loop recv 0 [] \<noteq> None"
  then obtain y where "recv_loop recv 0 [] = Some y" by auto
  then show "recv_ends recv" by (rule recv_loop_Some_ends) simp
next
  assume "recv_ends recv"
  then obtain k where "case recv k of Inl e \<Rightarrow> True | Inr chunk \<Rightarrow> chunk = [] \<or> CHR 0x0A \<in> set chunk"
    unfolding recv_ends_def by blast
  then have "\<exists>y. recv_loop recv 0 [] = Some y"
    by (rule recv_loop_returns) simp
  then show "recv_loop recv 0 [] \<noteq> None" by auto
qed

lemma exchange_returns: "recv_ends (on_recv sock) \<Longrightarrow> \<exists>r. exchange L sock = Some r"
  using recv_loop_ends_iff [of "on_recv sock"]
  by (auto simp: exchange_def split: option.splits sum.splits)

lemma tcp_try_returns:
  "(\<forall>sock. on_connect n host port = Inr sock \<longrightarrow> recv_ends (on_recv sock)) \<Longrightarrow>
     \<exists>r. tcp_try L n host port = Some r"
  using exchange_returns [of _ L]
  by (auto simp: tcp_try_def split: option.splits sum.splits)

lemma ssl_try_returns:
  "(\<forall>sock. on_connect n host port = Inr sock \<longrightarrow> recv_ends (on_recv sock)) \<Longrightarrow>
     \<exists>r. ssl_try L n host port = Some r"
  using exchange_returns [of _ L]
  by (auto simp: ssl_try_def split: option.splits sum.splits)

lemma dripping_never_ends: "recv_loop (on_recv peer_dripping) 0 [] = None"
proof -
  have "\<not> recv_ends (on_recv peer_dripping)"
    by (simp add: recv_ends_def peer_dripping_def)
  with recv_loop_ends_iff [of "on_recv peer_dripping"] show ?thesis by simp
qed

lemma silent_raises: "recv_loop (on_recv peer_silent) 0 [] = Some (Inl socket_timeout)"
  by (subst recv_loop.simps) (simp add: peer_silent_def)

section \<open>The transport probes\<close>

lemma tcp_reads_result:
  "tcp_reads n host port response \<Longrightarrow>
     check_tcp_server L n host port
       = Some (case read_response L response of Inr result \<Rightarrow> result | Inl e \<Rightarrow> tcp_except e)"
  by (auto simp: tcp_reads_def check_tcp_server_def tcp_try_def exchange_def split: sum.splits)

lemma ssl_reads_result:
  "ssl_reads n host port response \<Longrightarrow>
     check_ssl_server L n host port
       = Some (case read_response L response of Inr result \<Rightarrow> result | Inl e \<Rightarrow> ssl_except e)"
  by (auto simp: ssl_reads_def check_ssl_server_def ssl_try_def exchange_def split: sum.splits)

lemma tcp_reads_one_line:
  "chunk \<noteq> [] \<Longrightarrow> CHR 0x0A \<in> set chunk \<Longrightarrow>
     tcp_reads (connected_to (peer_sending [chunk])) host port chunk"
  using recv_loop_one_line [of chunk]
  by (simp add: tcp_reads_def connected_to_def) (simp add: peer_sending_def)

lemma ssl_reads_one_line:
  "chunk \<noteq> [] \<Longrightarrow> CHR 0x0A \<in> set chunk \<Longrightarrow>
     ssl_reads (connected_to (peer_sending [chunk])) host port chunk"
  using recv_loop_one_line [of chunk]
  by (simp add: ssl_reads_def connected_to_def) (simp add: peer_sending_def)

lemma tcp_reads_closed: "tcp_reads (connected_to (peer_sending [])) host port []"
  using recv_loop_closed
  by (simp add: tcp_reads_def connected_to_def) (simp add: peer_sending_def)

lemma ssl_reads_closed: "ssl_reads (connected_to (peer_sending [])) host port []"
  using recv_loop_closed
  by (simp add: ssl_reads_def connected_to_def) (simp add: peer_sending_def)

text \<open>The three replies and the closed connection, through the reference decoders.\<close>

lemma decode_reply_ok: "bytes_decode cpython reply_ok = Inr (u reply_ok)"
  by code_simp

lemma strip_reply_ok: \<open>strip (u reply_ok) = u ''{"id":1,"result":[0,"abc"]}''\<close>
  by code_simp

lemma loads_reply_ok:
  \<open>json_loads cpython (u ''{"id":1,"result":[0,"abc"]}'')
     = Inr (JObject [(u ''id'', JInt 1), (u ''result'', JArray [JInt 0, JString (u ''abc'')])])\<close>
  by code_simp

lemma decode_reply_empty_object: "bytes_decode cpython reply_empty_object = Inr (u reply_empty_object)"
  by code_simp

lemma strip_reply_empty_object: "strip (u reply_empty_object) = u ''{}''"
  by code_simp

lemma loads_empty_object: "json_loads cpython (u ''{}'') = Inr (JObject [])"
  by code_simp

lemma decode_nothing: "bytes_decode cpython [] = Inr []"
  by code_simp

lemma decode_reply_hello: "bytes_decode cpython reply_hello = Inr (u reply_hello)"
  by code_simp

lemma strip_reply_hello: "strip (u reply_hello) = u ''hello''"
  by code_simp

lemma loads_hello:
  "json_loads cpython (u ''hello'') = Inl (ValueError ''Expecting value: line 1 column 1 (char 0)'')"
  by code_simp

text \<open>
  Claim C2, as the code has it. The claim holds for every peer under which the read
  loop ends: then both probes return a pair, and an exception \<open>e\<close> raised anywhere in
  the body of the \<^verbatim>\<open>try\<close> gives failure with the detail \<^verbatim>\<open>Timeout\<close> for a
  timeout, else \<^verbatim>\<open>Connection refused\<close> for a refused connection, else, in
  \<^verbatim>\<open>check_ssl_server\<close> only, \<^verbatim>\<open>SSL error: \<close> followed by the message for an
  \<^verbatim>\<open>ssl.SSLError\<close>, else the message as it is. \<^verbatim>\<open>check_tcp_server\<close> has no
  clause for \<^verbatim>\<open>ssl.SSLError\<close>; it makes no TLS handshake.
\<close>

theorem probes_classify_exceptions:
  assumes "\<forall>sock. on_connect n host port = Inr sock \<longrightarrow> recv_ends (on_recv sock)"
  shows "(\<exists>success detail. check_tcp_server L n host port = Some (success, detail))
       \<and> (\<exists>success detail. check_ssl_server L n host port = Some (success, detail))
       \<and> (\<forall>e. tcp_try L n host port = Some (Inl e) \<longrightarrow>
             check_tcp_server L n host port
               = Some (False, if is_timeout e then ''Timeout''
                              else if is_refused e then ''Connection refused''
                              else exn_str e))
       \<and> (\<forall>e. ssl_try L n host port = Some (Inl e) \<longrightarrow>
             check_ssl_server L n host port
               = Some (False, if is_timeout e then ''Timeout''
                              else if is_refused e then ''Connection refused''
                              else if is_ssl e then ''SSL error: '' @ exn_str e
                              else exn_str e))"
proof (intro conjI allI impI)
  from tcp_try_returns [OF assms, of L] obtain r where "tcp_try L n host port = Some r" by blast
  then show "\<exists>success detail. check_tcp_server L n host port = Some (success, detail)"
    by (cases r) (auto simp: check_tcp_server_def tcp_except_def)
next
  from ssl_try_returns [OF assms, of L] obtain r where "ssl_try L n host port = Some r" by blast
  then show "\<exists>success detail. check_ssl_server L n host port = Some (success, detail)"
    by (cases r) (auto simp: check_ssl_server_def ssl_except_def)
next
  fix e assume "tcp_try L n host port = Some (Inl e)"
  then show "check_tcp_server L n host port
               = Some (False, if is_timeout e then ''Timeout''
                              else if is_refused e then ''Connection refused''
                              else exn_str e)"
    by (simp add: check_tcp_server_def tcp_except_def)
next
  fix e assume "ssl_try L n host port = Some (Inl e)"
  then show "check_ssl_server L n host port
               = Some (False, if is_timeout e then ''Timeout''
                              else if is_refused e then ''Connection refused''
                              else if is_ssl e then ''SSL error: '' @ exn_str e
                              else exn_str e)"
    by (simp add: check_ssl_server_def ssl_except_def)
qed

theorem probes_classify_exceptions_witness:
  "check_tcp_server cpython (connected_to peer_silent) ''host'' 50001 = Some (False, ''Timeout'')
   \<and> check_ssl_server cpython (connected_to peer_silent) ''host'' 50002 = Some (False, ''Timeout'')
   \<and> check_tcp_server cpython (failing_connect connection_refused) ''host'' 50001
       = Some (False, ''Connection refused'')
   \<and> check_ssl_server cpython (failing_connect (ssl_error ''handshake failure'')) ''host'' 50002
       = Some (False, ''SSL error: handshake failure'')"
proof -
  have ends: "\<forall>sock. on_connect (connected_to peer_silent) h p = Inr sock \<longrightarrow> recv_ends (on_recv sock)"
    for h p
    by (auto simp: connected_to_def recv_ends_def peer_silent_def)
  have none: "\<forall>sock. on_connect (failing_connect e) h p = Inr sock \<longrightarrow> recv_ends (on_recv sock)"
    for e h p
    by (simp add: failing_connect_def)
  have t1: "tcp_try cpython (connected_to peer_silent) ''host'' 50001 = Some (Inl socket_timeout)"
    using silent_raises by (simp add: tcp_try_def connected_to_def exchange_def) (simp add: peer_silent_def)
  have t2: "ssl_try cpython (connected_to peer_silent) ''host'' 50002 = Some (Inl socket_timeout)"
    using silent_raises by (simp add: ssl_try_def connected_to_def exchange_def) (simp add: peer_silent_def)
  have t3: "tcp_try cpython (failing_connect connection_refused) ''host'' 50001
              = Some (Inl connection_refused)"
    by (simp add: tcp_try_def failing_connect_def)
  have t4: "ssl_try cpython (failing_connect (ssl_error ''handshake failure'')) ''host'' 50002
              = Some (Inl (ssl_error ''handshake failure''))"
    by (simp add: ssl_try_def failing_connect_def)
  show ?thesis
    using probes_classify_exceptions [where n = "connected_to peer_silent" and host = "''host''"
          and port = 50001 and L = cpython, OF ends]
      probes_classify_exceptions [where n = "connected_to peer_silent" and host = "''host''"
          and port = 50002 and L = cpython, OF ends]
      probes_classify_exceptions [where n = "failing_connect connection_refused"
          and host = "''host''" and port = 50001 and L = cpython, OF none]
      probes_classify_exceptions [where n = "failing_connect (ssl_error ''handshake failure'')"
          and host = "''host''" and port = 50002 and L = cpython, OF none]
      t1 t2 t3 t4
    by (simp add: socket_timeout_def connection_refused_def ssl_error_def)
qed

text \<open>
  Claim C2, as stated, fails: against a peer that keeps sending bytes without a line
  feed, each within the timeout, the read loop never ends and neither probe returns.
\<close>

theorem dripping_peer_counterexample:
  "check_tcp_server cpython (connected_to peer_dripping) ''host'' 50001 = None
   \<and> check_ssl_server cpython (connected_to peer_dripping) ''host'' 50002 = None"
  using dripping_never_ends
  by (simp add: check_tcp_server_def check_ssl_server_def tcp_try_def ssl_try_def
        connected_to_def exchange_def)
     (simp add: peer_dripping_def)

text \<open>
  Claim C5, as the code has it. What decides the outcome is the whole buffer the read
  loop has accumulated: all that was received up to and including the chunk that
  brought the first line feed, or up to the closing of the connection. Let a probe reach
  the end of its read loop with the buffer \<open>response\<close>, and let the buffer decode to
  \<open>text\<close>. If the stripped text parses as a JSON object with a key \<^verbatim>\<open>result\<close> or a
  key \<^verbatim>\<open>error\<close>, the probe returns success with \<^verbatim>\<open>OK\<close>. If the stripped text is
  empty, as it is when the peer closes the connection without sending, or parses as an
  object with neither key, as \<^verbatim>\<open>{}\<close> does, the probe returns failure with
  \<^verbatim>\<open>No valid response\<close>.
\<close>

theorem reply_decides_outcome:
  assumes "bytes_decode L response = Inr text"
  shows "(strip text \<noteq> [] \<and> json_loads L (strip text) = Inr (JObject items)
            \<and> (u ''result'' \<in> fst ` set items \<or> u ''error'' \<in> fst ` set items)
          \<longrightarrow> (tcp_reads n host port response
                  \<longrightarrow> check_tcp_server L n host port = Some (True, ''OK''))
              \<and> (ssl_reads n host port response
                  \<longrightarrow> check_ssl_server L n host port = Some (True, ''OK'')))
       \<and> (strip text = []
          \<longrightarrow> (tcp_reads n host port response
                  \<longrightarrow> check_tcp_server L n host port = Some (False, ''No valid response''))
              \<and> (ssl_reads n host port response
                  \<longrightarrow> check_ssl_server L n host port = Some (False, ''No valid response'')))
       \<and> (json_loads L (strip text) = Inr (JObject items)
            \<and> u ''result'' \<notin> fst ` set items \<and> u ''error'' \<notin> fst ` set items
          \<longrightarrow> (tcp_reads n host port response
                  \<longrightarrow> check_tcp_server L n host port = Some (False, ''No valid response''))
              \<and> (ssl_reads n host port response
                  \<longrightarrow> check_ssl_server L n host port = Some (False, ''No valid response'')))"
proof -
  have ok: "read_response L response = Inr (True, ''OK'')"
    if "strip text \<noteq> []" "json_loads L (strip text) = Inr (JObject items)"
       "u ''result'' \<in> fst ` set items \<or> u ''error'' \<in> fst ` set items"
    using assms that
    by (cases "u ''result'' \<in> fst ` set items") (simp_all add: read_response_def contains_def Let_def)
  have empty: "read_response L response = Inr (False, ''No valid response'')"
    if "strip text = []"
    using assms that by (simp add: read_response_def)
  have neither: "read_response L response = Inr (False, ''No valid response'')"
    if "json_loads L (strip text) = Inr (JObject items)"
       "u ''result'' \<notin> fst ` set items" "u ''error'' \<notin> fst ` set items"
    using assms that by (simp add: read_response_def contains_def Let_def)
  show ?thesis
    using ok empty neither
    by (auto simp: tcp_reads_result ssl_reads_result)
qed

theorem reply_decides_outcome_witness:
  "check_tcp_server cpython (connected_to (peer_sending [reply_ok])) ''host'' 50001 = Some (True, ''OK'')
   \<and> check_ssl_server cpython (connected_to (peer_sending [reply_ok])) ''host'' 50002 = Some (True, ''OK'')
   \<and> check_tcp_server cpython (connected_to (peer_sending [])) ''host'' 50001
       = Some (False, ''No valid response'')
   \<and> check_ssl_server cpython (connected_to (peer_sending [])) ''host'' 50002
       = Some (False, ''No valid response'')
   \<and> check_tcp_server cpython (connected_to (peer_sending [reply_empty_object])) ''host'' 50001
       = Some (False, ''No valid response'')
   \<and> check_ssl_server cpython (connected_to (peer_sending [reply_empty_object])) ''host'' 50002
       = Some (False, ''No valid response'')"
proof -
  have r1: "tcp_reads (connected_to (peer_sending [reply_ok])) ''host'' 50001 reply_ok"
    by (rule tcp_reads_one_line) (simp_all add: reply_ok_def)
  have r2: "ssl_reads (connected_to (peer_sending [reply_ok])) ''host'' 50002 reply_ok"
    by (rule ssl_reads_one_line) (simp_all add: reply_ok_def)
  have r3: "tcp_reads (connected_to (peer_sending [reply_empty_object])) ''host'' 50001 reply_empty_object"
    by (rule tcp_reads_one_line) (simp_all add: reply_empty_object_def)
  have r4: "ssl_reads (connected_to (peer_sending [reply_empty_object])) ''host'' 50002 reply_empty_object"
    by (rule ssl_reads_one_line) (simp_all add: reply_empty_object_def)
  have keys: "u ''result'' \<in> fst ` set [(u ''id'', JInt 1), (u ''result'', JArray [JInt 0, JString (u ''abc'')])]"
    by simp
  have nonempty: \<open>u ''{"id":1,"result":[0,"abc"]}'' \<noteq> []\<close>
    by (simp add: u_def)
  have stripped_nothing: "strip [] = []"
    by (simp add: strip_def)
  note ok = reply_decides_outcome [OF decode_reply_ok,
      of "[(u ''id'', JInt 1), (u ''result'', JArray [JInt 0, JString (u ''abc'')])]"]
  note closed = reply_decides_outcome [OF decode_nothing, of "[]"]
  note empty = reply_decides_outcome [OF decode_reply_empty_object, of "[]"]
  show ?thesis
    using ok [of "connected_to (peer_sending [reply_ok])" "''host''" 50001]
      ok [of "connected_to (peer_sending [reply_ok])" "''host''" 50002]
      closed [of "connected_to (peer_sending [])" "''host''" 50001]
      closed [of "connected_to (peer_sending [])" "''host''" 50002]
      empty [of "connected_to (peer_sending [reply_empty_object])" "''host''" 50001]
      empty [of "connected_to (peer_sending [reply_empty_object])" "''host''" 50002]
      r1 r2 r3 r4 tcp_reads_closed [of "''host''" 50001] ssl_reads_closed [of "''host''" 50002]
      keys nonempty stripped_nothing
    by (simp add: strip_reply_ok loads_reply_ok strip_reply_empty_object loads_empty_object)
qed

lemma decode_first_line:
  \<open>bytes_decode cpython ''{"id":1,"result":[0,"abc"]}'' = Inr (u ''{"id":1,"result":[0,"abc"]}'')\<close>
  by code_simp

lemma strip_first_line:
  \<open>strip (u ''{"id":1,"result":[0,"abc"]}'') = u ''{"id":1,"result":[0,"abc"]}''\<close>
  by code_simp

lemma read_response_two_lines:
  "read_response cpython reply_two_lines = Inl (ValueError ''Extra data: line 2 column 1 (char 28)'')"
  by code_simp

text \<open>
  Claim C5, as stated, fails: it speaks of the bytes read before the first line feed, but
  a chunk may carry more after the line feed, and the probes parse all of it. The bytes
  before the first line feed of the reply below are the example reply with its key
  \<^verbatim>\<open>result\<close>; the second line arrives in the same chunk, \<^verbatim>\<open>json.loads\<close> raises on
  the two lines, and both probes return failure with the message of the decoder.
\<close>

theorem trailing_data_counterexample:
  \<open>reply_two_lines = ''{"id":1,"result":[0,"abc"]}'' @ [CHR 0x0A] @ ''{"id":2}'' @ [CHR 0x0A]
   \<and> CHR 0x0A \<notin> set ''{"id":1,"result":[0,"abc"]}''
   \<and> bytes_decode cpython ''{"id":1,"result":[0,"abc"]}'' = Inr (u ''{"id":1,"result":[0,"abc"]}'')
   \<and> strip (u ''{"id":1,"result":[0,"abc"]}'') = u ''{"id":1,"result":[0,"abc"]}''
   \<and> json_loads cpython (u ''{"id":1,"result":[0,"abc"]}'')
       = Inr (JObject [(u ''id'', JInt 1), (u ''result'', JArray [JInt 0, JString (u ''abc'')])])
   \<and> tcp_reads (connected_to (peer_sending [reply_two_lines])) ''host'' 50001 reply_two_lines
   \<and> ssl_reads (connected_to (peer_sending [reply_two_lines])) ''host'' 50002 reply_two_lines
   \<and> check_tcp_server cpython (connected_to (peer_sending [reply_two_lines])) ''host'' 50001
       = Some (False, ''Extra data: line 2 column 1 (char 28)'')
   \<and> check_ssl_server cpython (connected_to (peer_sending [reply_two_lines])) ''host'' 50002
       = Some (False, ''Extra data: line 2 column 1 (char 28)'')\<close>
proof -
  have r1: "tcp_reads (connected_to (peer_sending [reply_two_lines])) ''host'' 50001 reply_two_lines"
    by (rule tcp_reads_one_line) (simp_all add: reply_two_lines_def)
  have r2: "ssl_reads (connected_to (peer_sending [reply_two_lines])) ''host'' 50002 reply_two_lines"
    by (rule ssl_reads_one_line) (simp_all add: reply_two_lines_def)
  have t: "check_tcp_server cpython (connected_to (peer_sending [reply_two_lines])) ''host'' 50001
             = Some (False, ''Extra data: line 2 column 1 (char 28)'')"
    using tcp_reads_result [OF r1, of cpython]
    by (simp add: read_response_two_lines tcp_except_def ValueError_def plain_exn_def)
  have s: "check_ssl_server cpython (connected_to (peer_sending [reply_two_lines])) ''host'' 50002
             = Some (False, ''Extra data: line 2 column 1 (char 28)'')"
    using ssl_reads_result [OF r2, of cpython]
    by (simp add: read_response_two_lines ssl_except_def ValueError_def plain_exn_def)
  have nl: \<open>CHR 0x0A \<notin> set ''{"id":1,"result":[0,"abc"]}''\<close>
    by simp
  from r1 r2 t s nl show ?thesis
    by (simp add: decode_first_line strip_first_line loads_reply_ok) (simp add: reply_two_lines_def)
qed

text \<open>
  Claim C3, as the code has it. When the stripped text of the buffer is not empty and
  \<^verbatim>\<open>json.loads\<close> raises \<open>e\<close> on it, the probe returns failure, and the detail is what
  the \<^verbatim>\<open>except\<close> clauses make of \<open>e\<close>: for the \<^verbatim>\<open>JSONDecodeError\<close> of the decoder
  its message, such as \<^verbatim>\<open>Expecting value: line 1 column 1 (char 0)\<close>.
\<close>

theorem malformed_reply_detail:
  assumes "bytes_decode L response = Inr text" and "strip text \<noteq> []"
      and "json_loads L (strip text) = Inl e"
  shows "(tcp_reads n host port response \<longrightarrow>
            check_tcp_server L n host port
              = Some (False, if is_timeout e then ''Timeout''
                             else if is_refused e then ''Connection refused''
                             else exn_str e))
       \<and> (ssl_reads n host port response \<longrightarrow>
            check_ssl_server L n host port
              = Some (False, if is_timeout e then ''Timeout''
                             else if is_refused e then ''Connection refused''
                             else if is_ssl e then ''SSL error: '' @ exn_str e
                             else exn_str e))"
proof -
  have "read_response L response = Inl e"
    using assms by (simp add: read_response_def)
  then show ?thesis
    by (auto simp: tcp_reads_result ssl_reads_result tcp_except_def ssl_except_def)
qed

theorem malformed_reply_detail_witness:
  "check_tcp_server cpython (connected_to (peer_sending [reply_hello])) ''host'' 50001
     = Some (False, ''Expecting value: line 1 column 1 (char 0)'')
   \<and> check_ssl_server cpython (connected_to (peer_sending [reply_hello])) ''host'' 50002
     = Some (False, ''Expecting value: line 1 column 1 (char 0)'')"
proof -
  have r1: "tcp_reads (connected_to (peer_sending [reply_hello])) ''host'' 50001 reply_hello"
    by (rule tcp_reads_one_line) (simp_all add: reply_hello_def)
  have r2: "ssl_reads (connected_to (peer_sending [reply_hello])) ''host'' 50002 reply_hello"
    by (rule ssl_reads_one_line) (simp_all add: reply_hello_def)
  have nonempty: "strip (u reply_hello) \<noteq> []"
    unfolding strip_reply_hello by (simp add: u_def)
  have raised: "json_loads cpython (strip (u reply_hello))
                  = Inl (ValueError ''Expecting value: line 1 column 1 (char 0)'')"
    by (simp add: strip_reply_hello loads_hello)
  note m = malformed_reply_detail [OF decode_reply_hello nonempty raised]
  show ?thesis
    using m [of "connected_to (peer_sending [reply_hello])" "''host''" 50001]
      m [of "connected_to (peer_sending [reply_hello])" "''host''" 50002] r1 r2
    by (simp add: ValueError_def plain_exn_def)
qed

text \<open>
  Claim C3, as stated, fails: the reply \<^verbatim>\<open>hello\<close> is not empty and is not JSON, and
  the detail of the failure is the message of the decoder, not
  \<^verbatim>\<open>No valid response\<close>.
\<close>

theorem malformed_reply_counterexample:
  "tcp_reads (connected_to (peer_sending [reply_hello])) ''host'' 50001 reply_hello
   \<and> bytes_decode cpython reply_hello = Inr (u reply_hello)
   \<and> strip (u reply_hello) = u ''hello''
   \<and> json_loads cpython (u ''hello'') = Inl (ValueError ''Expecting value: line 1 column 1 (char 0)'')
   \<and> check_tcp_server cpython (connected_to (peer_sending [reply_hello])) ''host'' 50001
       = Some (False, ''Expecting value: line 1 column 1 (char 0)'')
   \<and> check_tcp_server cpython (connected_to (peer_sending [reply_hello])) ''host'' 50001
       \<noteq> Some (False, ''No valid response'')"
proof -
  have r: "tcp_reads (connected_to (peer_sending [reply_hello])) ''host'' 50001 reply_hello"
    by (rule tcp_reads_one_line) (simp_all add: reply_hello_def)
  have "u ''hello'' \<noteq> []"
    by (simp add: u_def)
  then have "read_response cpython reply_hello
          = Inl (ValueError ''Expecting value: line 1 column 1 (char 0)'')"
    by (simp add: read_response_def decode_reply_hello strip_reply_hello loads_hello)
  with tcp_reads_result [OF r, of cpython]
  have "check_tcp_server cpython (connected_to (peer_sending [reply_hello])) ''host'' 50001
          = Some (False, ''Expecting value: line 1 column 1 (char 0)'')"
    by (simp add: tcp_except_def ValueError_def plain_exn_def)
  with r show ?thesis
    by (simp add: decode_reply_hello strip_reply_hello loads_hello)
qed


end
